theory Spec2Isabelle
  imports Main "HOL-Library.Sublist"
begin

section \<open>Python strings\<close>

text \<open>
  A Python string is modelled by the list of the bytes of its UTF-8 encoding, a
  \<open>string\<close>; a character outside ASCII is two to four of them.  The operators of
  \<^verbatim>\<open>str\<close> that the program uses are \<^verbatim>\<open>a in b\<close> (contiguous substring, which is the
  same on the encodings), \<^verbatim>\<open>s.lower()\<close>, \<^verbatim>\<open>s.startswith(p)\<close>, \<^verbatim>\<open>s.split(sep)\<close> and
  \<^verbatim>\<open>sep.join(xs)\<close>.  \<open>lower\<close> maps the ASCII capitals and leaves every other byte as
  it is.  The program lowers a text only to look for \<^verbatim>\<open>bot\<close>, \<^verbatim>\<open>app\<close>,
  \<^verbatim>\<open>approve\<close>, \<^verbatim>\<open>deny\<close>, \<^verbatim>\<open>reject\<close>, \<^verbatim>\<open>rate limit\<close> and the request
  identifier (eight hexadecimal digits) in it.  Python's \<^verbatim>\<open>lower\<close> yields an ASCII letter
  from a character outside ASCII in two cases only, \<^verbatim>\<open>k\<close> from the Kelvin sign and
  \<^verbatim>\<open>i\<close> followed by a combining dot from the dotted capital I, and neither can be part
  of an occurrence of one of these words; so these tests give what they give in Python.
\<close>

fun str_in :: "string \<Rightarrow> string \<Rightarrow> bool" where
  "str_in needle [] = (needle = [])"
| "str_in needle (c # cs) = (prefix needle (c # cs) \<or> str_in needle cs)"

definition lower_char :: "char \<Rightarrow> char" where
  "lower_char c =
     (if (65::nat) \<le> of_char c \<and> (of_char c :: nat) \<le> 90
      then char_of ((of_char c :: nat) + 32) else c)"

definition lower :: "string \<Rightarrow> string" where
  "lower s = map lower_char s"

text \<open>Truthiness of a Python string: the empty string is false.\<close>

definition truthy :: "string \<Rightarrow> bool" where
  "truthy s = (s \<noteq> [])"

text \<open>
  The characters of a string, each as its own encoding: the first byte of an encoded
  character tells how many bytes it has.
\<close>

definition utf8_length :: "char \<Rightarrow> nat" where
  "utf8_length c =
     (if (of_char c :: nat) < 192 then 1
      else if (of_char c :: nat) < 224 then 2
      else if (of_char c :: nat) < 240 then 3
      else 4)"

function chars_of :: "string \<Rightarrow> string list" where
  "chars_of [] = []"
| "chars_of (c # cs) =
     (c # take (utf8_length c - 1) cs) # chars_of (drop (utf8_length c - 1) cs)"
  by pat_completeness auto
termination
  by (relation "measure length") auto

text \<open>The characters of a text of ASCII characters, as a pattern spells it.\<close>

definition literal :: "string \<Rightarrow> string list" where
  "literal s = map (\<lambda>c. [c]) s"

text \<open>\<^verbatim>\<open>str(n)\<close> of a natural number\<close>

function show_nat :: "nat \<Rightarrow> string" where
  "show_nat n =
     (if n < 10 then [char_of (48 + n)]
      else show_nat (n div 10) @ [char_of (48 + n mod 10)])"
  by pat_completeness auto
termination
  by (relation "measure id") auto

declare show_nat.simps [simp del]

section \<open>Exceptions and the paths of \<^verbatim>\<open>os.path\<close>\<close>

text \<open>
  An exception is a value: its class, as far as the code tells classes apart, and its
  message, which is what \<^verbatim>\<open>str(e)\<close> returns.  \<^verbatim>\<open>SystemExit\<close>,
  \<^verbatim>\<open>KeyboardInterrupt\<close> and \<^verbatim>\<open>asyncio.CancelledError\<close> derive from
  \<^verbatim>\<open>BaseException\<close> and not from \<^verbatim>\<open>Exception\<close>: a handler
  \<^verbatim>\<open>except Exception\<close> lets them pass, a bare \<^verbatim>\<open>except\<close> catches them.
\<close>

datatype py_exception =
    ValueError string
  | AttributeError string
  | Exception string
  | SystemExit string
  | KeyboardInterrupt string
  | CancelledError string

fun str_of :: "py_exception \<Rightarrow> string" where
  "str_of (ValueError msg) = msg"
| "str_of (AttributeError msg) = msg"
| "str_of (Exception msg) = msg"
| "str_of (SystemExit msg) = msg"
| "str_of (KeyboardInterrupt msg) = msg"
| "str_of (CancelledError msg) = msg"

text \<open>\<^verbatim>\<open>isinstance(e, Exception)\<close>\<close>

fun is_Exception :: "py_exception \<Rightarrow> bool" where
  "is_Exception (ValueError msg) = True"
| "is_Exception (AttributeError msg) = True"
| "is_Exception (Exception msg) = True"
| "is_Exception (SystemExit msg) = False"
| "is_Exception (KeyboardInterrupt msg) = False"
| "is_Exception (CancelledError msg) = False"

text \<open>\<^verbatim>\<open>s.split('/')\<close> and \<^verbatim>\<open>'/'.join(xs)\<close>\<close>

fun split_sep :: "string \<Rightarrow> string list" where
  "split_sep [] = [[]]"
| "split_sep (c # cs) =
     (if c = CHR ''/'' then [] # split_sep cs
      else (case split_sep cs of
              [] \<Rightarrow> [[c]]
            | x # xs \<Rightarrow> (c # x) # xs))"

fun join_sep :: "string list \<Rightarrow> string" where
  "join_sep [] = []"
| "join_sep [x] = x"
| "join_sep (x # y # ys) = x @ ''/'' @ join_sep (y # ys)"

text \<open>\<^verbatim>\<open>posixpath.join(a, p)\<close> with one component\<close>

definition os_path_join :: "string \<Rightarrow> string \<Rightarrow> string" where
  "os_path_join a p =
     (if prefix ''/'' p then p
      else if a = [] \<or> last a = CHR ''/'' then a @ p
      else a @ ''/'' @ p)"

text \<open>
  \<^verbatim>\<open>posixpath.normpath\<close>: the loop over the components keeps a stack; \<^verbatim>\<open>..\<close> is
  pushed when the path is relative and the stack is empty, or when the top of the stack is
  \<^verbatim>\<open>..\<close>, and pops otherwise (at the root it is dropped).  The stack is kept in reverse.
\<close>

fun norm_comps :: "bool \<Rightarrow> string list \<Rightarrow> string list \<Rightarrow> string list" where
  "norm_comps initial_slashes new_comps [] = rev new_comps"
| "norm_comps initial_slashes new_comps (part # parts) =
     (if part = [] \<or> part = ''.'' then norm_comps initial_slashes new_comps parts
      else if part \<noteq> ''..'' \<or> (\<not> initial_slashes \<and> new_comps = [])
              \<or> (new_comps \<noteq> [] \<and> hd new_comps = ''..'')
      then norm_comps initial_slashes (part # new_comps) parts
      else if new_comps \<noteq> [] then norm_comps initial_slashes (tl new_comps) parts
      else norm_comps initial_slashes new_comps parts)"

definition normpath :: "string \<Rightarrow> string" where
  "normpath p =
     (if p = [] then ''.''
      else
        (let initial_slashes =
               (if prefix ''/'' p
                then (if prefix ''//'' p \<and> \<not> prefix ''///'' p then 2 else 1)
                else (0::nat));
             comps = norm_comps (initial_slashes \<noteq> 0) [] (split_sep p);
             joined = replicate initial_slashes CHR ''/'' @ join_sep comps
         in if joined = [] then ''.'' else joined))"

text \<open>\<^verbatim>\<open>posixpath.abspath\<close>; \<open>cwd\<close> is what \<^verbatim>\<open>os.getcwd()\<close> returns.\<close>

definition abspath :: "string \<Rightarrow> string \<Rightarrow> string" where
  "abspath cwd p = normpath (if prefix ''/'' p then p else os_path_join cwd p)"

text \<open>
  \<^verbatim>\<open>posixpath.commonpath\<close> of two paths.  It raises \<^verbatim>\<open>ValueError\<close> when one path is
  absolute and the other is not; otherwise the components that are empty or \<^verbatim>\<open>.\<close> are
  dropped and the longest common prefix of the two lists of components is joined (the
  library takes the minimum and the maximum of the lists first, which for two lists are
  these two).
\<close>

fun common_prefix :: "'a list \<Rightarrow> 'a list \<Rightarrow> 'a list" where
  "common_prefix (x # xs) (y # ys) = (if x = y then x # common_prefix xs ys else [])"
| "common_prefix xs ys = []"

definition path_components :: "string \<Rightarrow> string list" where
  "path_components p = filter (\<lambda>c. c \<noteq> [] \<and> c \<noteq> ''.'') (split_sep p)"

definition commonpath :: "string \<Rightarrow> string \<Rightarrow> py_exception + string" where
  "commonpath p q =
     (if prefix ''/'' p \<noteq> prefix ''/'' q
      then Inl (ValueError ''Can't mix absolute and relative paths'')
      else
        (let common = common_prefix (path_components p) (path_components q)
         in Inr ((if prefix ''/'' p then ''/'' else '''') @ join_sep common)))"

section \<open>file\_agent.py\<close>

datatype OperationType = LIST | READ | DELETE | MOVE | WRITE

fun OperationType_value :: "OperationType \<Rightarrow> string" where
  "OperationType_value LIST = ''list''"
| "OperationType_value READ = ''read''"
| "OperationType_value DELETE = ''delete''"
| "OperationType_value MOVE = ''move''"
| "OperationType_value WRITE = ''write''"

record FileOperation =
  op_type :: OperationType
  op_path :: string
  op_destination :: "string option"
  op_content :: "string option"

text \<open>
  The agent object.  The constructor stores \<^verbatim>\<open>os.path.abspath(working_directory)\<close>
  (\<open>cwd\<close> is the working directory of the process then) and builds the set
  \<open>high_risk_operations\<close>.
\<close>

record FileManagementAgent =
  working_directory :: string
  high_risk_operations :: "OperationType set"

definition FileManagementAgent_init :: "string \<Rightarrow> string \<Rightarrow> FileManagementAgent" where
  "FileManagementAgent_init cwd wd =
     \<lparr>working_directory = abspath cwd wd, high_risk_operations = {DELETE, MOVE, WRITE}\<rparr>"

definition is_high_risk_operation :: "FileManagementAgent \<Rightarrow> FileOperation \<Rightarrow> bool" where
  "is_high_risk_operation agent operation = (op_type operation \<in> high_risk_operations agent)"

section \<open>slack\_approval\_mcp.py\<close>

datatype ApprovalStatus = PENDING | APPROVED | DENIED | TIMEOUT

text \<open>A \<^verbatim>\<open>datetime\<close> is a count of microseconds; a \<^verbatim>\<open>timedelta\<close> is their difference.\<close>

type_synonym datetime = int

definition seconds :: "int \<Rightarrow> int" where
  "seconds n = n * 1000000"

definition minutes :: "int \<Rightarrow> int" where
  "minutes n = seconds (n * 60)"

record ApprovalRequest =
  req_id :: string
  req_operation :: FileOperation
  req_timestamp :: datetime
  req_status :: ApprovalStatus
  req_context :: string
  responded_by :: "string option"
  response_time :: "datetime option"

text \<open>
  A channel message.  The code tests \<^verbatim>\<open>isinstance(message, dict)\<close> and
  \<^verbatim>\<open>isinstance(message, str)\<close>, so a message is a dictionary, a string, or some other
  object (kept as its \<^verbatim>\<open>str()\<close> rendering).  Of a dictionary the code reads the keys
  \<^verbatim>\<open>user\<close>, \<^verbatim>\<open>username\<close>, \<^verbatim>\<open>text\<close>, \<^verbatim>\<open>ts\<close>, \<^verbatim>\<open>value\<close> and
  \<^verbatim>\<open>attachments\<close>; a key that is absent is \<open>None\<close>.  The values are strings
  (\<open>m_value\<close> holds \<^verbatim>\<open>str(message["value"])\<close>), and \<open>m_attachments\<close> lists, for each
  attachment, its \<^verbatim>\<open>callback_id\<close> when it has one.  A dictionary in which one of the
  keys \<^verbatim>\<open>user\<close>, \<^verbatim>\<open>username\<close>, \<^verbatim>\<open>text\<close> and \<^verbatim>\<open>ts\<close> is present with a
  value that is not a string (Python's \<^verbatim>\<open>None\<close>, say) is not a value of this type.
\<close>

record dict_message =
  m_user :: "string option"
  m_username :: "string option"
  m_text :: "string option"
  m_ts :: "string option"
  m_value :: "string option"
  m_attachments :: "string option list option"

datatype message = MDict dict_message | MStr string | MOther string

text \<open>\<^verbatim>\<open>d.get(key, default)\<close>\<close>

fun get_or :: "'a option \<Rightarrow> 'a \<Rightarrow> 'a" where
  "get_or None dflt = dflt"
| "get_or (Some v) dflt = v"

record SlackApprovalMCP =
  channel :: string
  timeout_minutes :: int
  bot_user_id :: "string option"
  message_sent_timestamp :: "datetime option"

definition SlackApprovalMCP_init :: "string \<Rightarrow> int \<Rightarrow> SlackApprovalMCP" where
  "SlackApprovalMCP_init ch tm =
     \<lparr>channel = ch, timeout_minutes = tm, bot_user_id = None, message_sent_timestamp = None\<rparr>"

text \<open>
  \<^verbatim>\<open>_get_bot_info\<close> lists the tools of the session and returns \<^verbatim>\<open>None\<close>, and returns
  \<^verbatim>\<open>None\<close> as well when listing them raises: \<open>tools_listed\<close> says which of the two
  happened.
\<close>

definition get_bot_info :: "bool \<Rightarrow> string option" where
  "get_bot_info tools_listed = (if tools_listed then None else None)"

text \<open>
  \<^verbatim>\<open>_is_bot_message\<close>.  The parameter \<open>fromtimestamp\<close> stands for
  \<^verbatim>\<open>datetime.fromtimestamp(float(s))\<close>: the time the string denotes, or \<open>None\<close> when the
  conversion raises (the bare \<^verbatim>\<open>except\<close> then passes).
\<close>

definition is_bot_message ::
  "(string \<Rightarrow> datetime option) \<Rightarrow> SlackApprovalMCP \<Rightarrow> message \<Rightarrow> bool" where
  "is_bot_message fromtimestamp self message =
     (case message of
        MDict d \<Rightarrow>
          (let user_id = get_or (m_user d) '''';
               username = get_or (m_username d) ''''
           in if (case bot_user_id self of None \<Rightarrow> False | Some b \<Rightarrow> truthy b \<and> user_id = b)
              then True
              else if str_in ''bot'' (lower username) \<or> str_in ''app'' (lower username)
              then True
              else
                (let text = get_or (m_text d) ''''
                 in if str_in ''Agent Approval Request'' text \<or> str_in ''To approve, reply:'' text
                    then True
                    else
                      (case (message_sent_timestamp self, m_ts d) of
                         (Some sent, Some ts) \<Rightarrow>
                           (case fromtimestamp ts of
                              Some msg_time \<Rightarrow> \<bar>msg_time - sent\<bar> < seconds 5
                            | None \<Rightarrow> False)
                       | _ \<Rightarrow> False)))
      | _ \<Rightarrow> False)"

text \<open>\<^verbatim>\<open>_is_approval_response\<close>\<close>

definition is_approval_response :: "message \<Rightarrow> string \<Rightarrow> bool" where
  "is_approval_response message approval_id =
     (let in_attachments =
            (case message of
               MDict d \<Rightarrow>
                 list_ex (\<lambda>attachment.
                            case attachment of
                              None \<Rightarrow> False
                            | Some callback_id \<Rightarrow> str_in approval_id callback_id)
                   (get_or (m_attachments d) [])
             | _ \<Rightarrow> False)
      in if in_attachments then True
         else
           (let text = (case message of
                          MDict d \<Rightarrow> get_or (m_text d) ''''
                        | MStr s \<Rightarrow> s
                        | MOther _ \<Rightarrow> '''');
                text_lower = lower text;
                approval_id_lower = lower approval_id;
                has_approval_id = str_in approval_id_lower text_lower;
                has_approve_word = str_in ''approve'' text_lower;
                has_deny_word = (str_in ''deny'' text_lower \<or> str_in ''reject'' text_lower)
            in if has_approval_id \<and> (has_approve_word \<or> has_deny_word) then True
               else
                 (case message of
                    MDict d \<Rightarrow>
                      (case m_value d of
                         Some v \<Rightarrow> str_in approval_id v
                       | None \<Rightarrow> False)
                  | _ \<Rightarrow> False)))"

text \<open>\<^verbatim>\<open>_process_response\<close>; \<open>now\<close> is what \<^verbatim>\<open>datetime.now()\<close> returns in it.\<close>

definition process_response :: "datetime \<Rightarrow> message \<Rightarrow> ApprovalRequest \<Rightarrow> ApprovalRequest" where
  "process_response now message request =
     (let request = request\<lparr>response_time := Some now\<rparr>;
          request =
            (case message of
               MDict d \<Rightarrow>
                 request\<lparr>responded_by :=
                   Some (get_or (m_username d) (get_or (m_user d) ''unknown''))\<rparr>
             | _ \<Rightarrow> request\<lparr>responded_by := Some ''unknown''\<rparr>);
          text = (case message of
                    MDict d \<Rightarrow> get_or (m_text d) ''''
                  | MStr s \<Rightarrow> s
                  | MOther s \<Rightarrow> s);
          text_lower = lower text;
          approval_id_lower = lower (req_id request)
      in if str_in ''approve'' text_lower \<and> str_in approval_id_lower text_lower
         then request\<lparr>req_status := APPROVED\<rparr>
         else if (str_in ''deny'' text_lower \<or> str_in ''reject'' text_lower)
                 \<and> str_in approval_id_lower text_lower
         then request\<lparr>req_status := DENIED\<rparr>
         else request)"

subsection \<open>The polling loop of \<^verbatim>\<open>_wait_for_response\<close>\<close>

text \<open>
  One pass of the body of the \<^verbatim>\<open>for\<close> loop over the fetched messages either goes on
  to the next message, with the request and the set of seen timestamps as they then are,
  or returns the request from \<^verbatim>\<open>_wait_for_response\<close>.
\<close>

datatype for_result = Continue ApprovalRequest "string set" | Return ApprovalRequest

definition msg_ts_of :: "message \<Rightarrow> string" where
  "msg_ts_of message = (case message of MDict d \<Rightarrow> get_or (m_ts d) '''' | _ \<Rightarrow> '''')"

definition mark_seen :: "string \<Rightarrow> string set \<Rightarrow> string set" where
  "mark_seen msg_ts seen = (if truthy msg_ts then insert msg_ts seen else seen)"

definition for_body ::
  "(string \<Rightarrow> datetime option) \<Rightarrow> SlackApprovalMCP \<Rightarrow> datetime \<Rightarrow>
   ApprovalRequest \<Rightarrow> string set \<Rightarrow> message \<Rightarrow> for_result" where
  "for_body fromtimestamp self now request seen message =
     (let msg_ts = msg_ts_of message
      in if truthy msg_ts \<and> msg_ts \<in> seen then Continue request seen
         else if is_bot_message fromtimestamp self message
         then Continue request (mark_seen msg_ts seen)
         else if is_approval_response message (req_id request)
         then (let seen = mark_seen msg_ts seen;
                   request = process_response now message request
               in if req_status request \<noteq> PENDING then Return request
                  else Continue request seen)
         else Continue request (mark_seen msg_ts seen))"

fun for_messages ::
  "(string \<Rightarrow> datetime option) \<Rightarrow> SlackApprovalMCP \<Rightarrow> datetime \<Rightarrow>
   ApprovalRequest \<Rightarrow> string set \<Rightarrow> message list \<Rightarrow> for_result" where
  "for_messages fromtimestamp self now request seen [] = Continue request seen"
| "for_messages fromtimestamp self now request seen (message # rest) =
     (case for_body fromtimestamp self now request seen message of
        Return r \<Rightarrow> Return r
      | Continue request' seen' \<Rightarrow> for_messages fromtimestamp self now request' seen' rest)"

text \<open>
  The regular expression search \<^verbatim>\<open>re.search(r'retry after (\d+)([ms])', error_msg)\<close>
  works on the characters of the message: it finds the leftmost position at which the
  literal text, at least one decimal digit and then \<^verbatim>\<open>m\<close> or \<^verbatim>\<open>s\<close> follow one
  another.  The digits are matched greedily, and a shorter run of digits cannot match,
  since a digit would follow it.  The result is the pair of \<^verbatim>\<open>group(1)\<close> and
  \<^verbatim>\<open>group(2)\<close>.

  The class \<^verbatim>\<open>\d\<close> holds every decimal digit of Unicode, and \<^verbatim>\<open>int\<close> reads them all.
  The digits of ASCII are written out; which other characters are decimal digits, and of
  which value, is a table of the interpreter's Unicode database: the parameter
  \<open>unicode_digit\<close>, from the encoding of a character outside ASCII to its value.
\<close>

definition decimal_digit :: "(string \<Rightarrow> nat option) \<Rightarrow> string \<Rightarrow> nat option" where
  "decimal_digit unicode_digit ch =
     (case ch of
        [c] \<Rightarrow>
          if (of_char c :: nat) < 128
          then (if (48::nat) \<le> of_char c \<and> (of_char c :: nat) \<le> 57
                then Some ((of_char c :: nat) - 48) else None)
          else unicode_digit ch
      | _ \<Rightarrow> unicode_digit ch)"

definition is_digit :: "(string \<Rightarrow> nat option) \<Rightarrow> string \<Rightarrow> bool" where
  "is_digit unicode_digit ch = (decimal_digit unicode_digit ch \<noteq> None)"

definition match_retry_at ::
  "(string \<Rightarrow> nat option) \<Rightarrow> string list \<Rightarrow> (string list \<times> string) option" where
  "match_retry_at unicode_digit s =
     (if prefix (literal ''retry after '') s
      then (let rest = drop 12 s
            in case dropWhile (is_digit unicode_digit) rest of
                 [] \<Rightarrow> None
               | u # _ \<Rightarrow>
                   if takeWhile (is_digit unicode_digit) rest \<noteq> [] \<and> (u = ''m'' \<or> u = ''s'')
                   then Some (takeWhile (is_digit unicode_digit) rest, u)
                   else None)
      else None)"

fun search_retry ::
  "(string \<Rightarrow> nat option) \<Rightarrow> string list \<Rightarrow> (string list \<times> string) option" where
  "search_retry unicode_digit [] = None"
| "search_retry unicode_digit (c # cs) =
     (case match_retry_at unicode_digit (c # cs) of
        Some r \<Rightarrow> Some r
      | None \<Rightarrow> search_retry unicode_digit cs)"

text \<open>
  \<^verbatim>\<open>int(digits)\<close> on a run of characters.  The interpreter refuses to convert more than
  4300 digits (the default of \<^verbatim>\<open>sys.set_int_max_str_digits\<close>; leading zeros count) and
  raises \<^verbatim>\<open>ValueError\<close>.
\<close>

definition int_limit_message :: "nat \<Rightarrow> string" where
  "int_limit_message n =
     ''Exceeds the limit (4300 digits) for integer string conversion: value has ''
     @ show_nat n @ '' digits; use sys.set_int_max_str_digits() to increase the limit''"

definition py_int :: "(string \<Rightarrow> nat option) \<Rightarrow> string list \<Rightarrow> py_exception + nat" where
  "py_int unicode_digit digits =
     (if digits = [] \<or> \<not> list_all (is_digit unicode_digit) digits
      then Inl (ValueError (''invalid literal for int() with base 10: '' @ [CHR 0x27]
                            @ concat digits @ [CHR 0x27]))
      else if 4300 < length digits
      then Inl (ValueError (int_limit_message (length digits)))
      else Inr (foldl (\<lambda>a ch. 10 * a
                         + (case decimal_digit unicode_digit ch of Some v \<Rightarrow> v | None \<Rightarrow> 0))
                  0 digits))"

text \<open>
  What one \<^verbatim>\<open>conversations_history\<close> call gives: it raises (\<open>Failed\<close>, with the
  exception), or it returns, and the payload is normalised to the list of messages
  \<^verbatim>\<open>message_list\<close> (\<open>Fetched\<close>; a result without \<^verbatim>\<open>content\<close> runs no loop, as the
  empty list does).  The CSV and JSON parsing that builds the list is done by library
  code and is not part of the model.
\<close>

datatype fetch = Failed py_exception | Fetched "message list"

record wait_state =
  ws_request :: ApprovalRequest
  ws_seen :: "string set"
  ws_check_interval :: nat

text \<open>
  One turn of the \<^verbatim>\<open>while\<close> loop after its test: \<^verbatim>\<open>_wait_for_response\<close> returns
  (\<open>Done\<close>), or the turn ends after the listed \<^verbatim>\<open>asyncio.sleep\<close> calls (their
  arguments, in seconds, in order) and the loop goes on from the new state (\<open>Again\<close>), or
  an exception leaves \<^verbatim>\<open>_wait_for_response\<close> (\<open>Raised\<close>): one that
  \<^verbatim>\<open>except Exception\<close> does not catch, or one raised inside the handler.
\<close>

datatype cycle_result = Done ApprovalRequest | Again "nat list" wait_state | Raised py_exception

definition poll_cycle ::
  "(string \<Rightarrow> datetime option) \<Rightarrow> (string \<Rightarrow> nat option) \<Rightarrow> SlackApprovalMCP \<Rightarrow> datetime \<Rightarrow>
   wait_state \<Rightarrow> fetch \<Rightarrow> cycle_result" where
  "poll_cycle fromtimestamp unicode_digit self now st f =
     (case f of
        Fetched message_list \<Rightarrow>
          (case for_messages fromtimestamp self now (ws_request st) (ws_seen st) message_list of
             Return r \<Rightarrow> Done r
           | Continue request seen \<Rightarrow>
               Again [ws_check_interval st] (st\<lparr>ws_request := request, ws_seen := seen\<rparr>))
      | Failed e \<Rightarrow>
          if \<not> is_Exception e then Raised e
          else
            (let error_msg = str_of e
             in if str_in ''rate limit'' (lower error_msg)
                then (case search_retry unicode_digit (chars_of error_msg) of
                        Some (digits, retry_unit) \<Rightarrow>
                          (case py_int unicode_digit digits of
                             Inl int_error \<Rightarrow> Raised int_error
                           | Inr retry_value \<Rightarrow>
                               (let wait_time =
                                      (if retry_unit = ''m'' then retry_value * 60
                                       else retry_value);
                                    wait_time = min wait_time 5
                                in Again [wait_time] st))
                      | None \<Rightarrow> Again [5, 10] (st\<lparr>ws_check_interval := 10\<rparr>))
                else Again [ws_check_interval st] st))"

text \<open>
  The \<^verbatim>\<open>while\<close> loop.  The environment is a script with one entry per turn: the clock
  reading of the loop test, what the fetch of that turn gives, and the clock reading used
  by \<^verbatim>\<open>_process_response\<close> in that turn.  The result is \<open>None\<close> when the script ends
  before the loop does, \<open>Some (Inr request)\<close> when \<^verbatim>\<open>_wait_for_response\<close> returns the
  request and \<open>Some (Inl e)\<close> when the exception \<open>e\<close> leaves it.
\<close>

record cycle =
  cy_clock :: datetime
  cy_fetch :: fetch
  cy_response_clock :: datetime

fun wait_loop ::
  "(string \<Rightarrow> datetime option) \<Rightarrow> (string \<Rightarrow> nat option) \<Rightarrow> SlackApprovalMCP \<Rightarrow> datetime \<Rightarrow>
   wait_state \<Rightarrow> cycle list \<Rightarrow> (py_exception + ApprovalRequest) option" where
  "wait_loop fromtimestamp unicode_digit self timeout_time st [] = None"
| "wait_loop fromtimestamp unicode_digit self timeout_time st (cy # script) =
     (if cy_clock cy < timeout_time
      then (case poll_cycle fromtimestamp unicode_digit self (cy_response_clock cy) st
                   (cy_fetch cy) of
              Done r \<Rightarrow> Some (Inr r)
            | Again sleeps st' \<Rightarrow>
                wait_loop fromtimestamp unicode_digit self timeout_time st' script
            | Raised e \<Rightarrow> Some (Inl e))
      else Some (Inr ((ws_request st)\<lparr>req_status := TIMEOUT\<rparr>)))"

definition wait_for_response ::
  "(string \<Rightarrow> datetime option) \<Rightarrow> (string \<Rightarrow> nat option) \<Rightarrow> SlackApprovalMCP \<Rightarrow>
   ApprovalRequest \<Rightarrow> cycle list \<Rightarrow> (py_exception + ApprovalRequest) option" where
  "wait_for_response fromtimestamp unicode_digit self request script =
     (let timeout_time = req_timestamp request + minutes (timeout_minutes self)
      in wait_loop fromtimestamp unicode_digit self timeout_time
           \<lparr>ws_request = request, ws_seen = {}, ws_check_interval = 3\<rparr> script)"

subsection \<open>\<^verbatim>\<open>request_approval\<close>\<close>

text \<open>The request object that \<^verbatim>\<open>request_approval\<close> creates.\<close>

definition new_request ::
  "string \<Rightarrow> FileOperation \<Rightarrow> datetime \<Rightarrow> string \<Rightarrow> ApprovalRequest" where
  "new_request approval_id operation now context =
     \<lparr>req_id = approval_id, req_operation = operation, req_timestamp = now,
      req_status = PENDING, req_context = context, responded_by = None,
      response_time = None\<rparr>"

text \<open>
  Posting the prompt.  Each of the four \<^verbatim>\<open>call_tool\<close> attempts either succeeds
  (\<open>None\<close>) or raises.  The second attempt runs in the handler of the first, so what it
  raises is the \<^verbatim>\<open>e\<close> of the outer handler.  Every handler is \<^verbatim>\<open>except Exception\<close>.
\<close>

definition post_prompt ::
  "py_exception option \<Rightarrow> py_exception option \<Rightarrow> py_exception option \<Rightarrow>
   py_exception option \<Rightarrow> py_exception + unit" where
  "post_prompt blocks_attempt plain_attempt alternative_attempt json_attempt =
     (case blocks_attempt of
        None \<Rightarrow> Inr ()
      | Some block_error \<Rightarrow>
          if \<not> is_Exception block_error then Inl block_error
          else
            (case plain_attempt of
               None \<Rightarrow> Inr ()
             | Some e \<Rightarrow>
                 if \<not> is_Exception e then Inl e
                 else
                   (case alternative_attempt of
                      None \<Rightarrow> Inr ()
                    | Some e2 \<Rightarrow>
                        if \<not> is_Exception e2 then Inl e2
                        else
                          (case json_attempt of
                             None \<Rightarrow> Inr ()
                           | Some e3 \<Rightarrow>
                               if \<not> is_Exception e3 then Inl e3
                               else Inl (Exception (''All attempts failed: '' @ str_of e
                                           @ '', '' @ str_of e2 @ '', '' @ str_of e3))))))"

text \<open>
  What the world gives one call of \<^verbatim>\<open>request_approval\<close>: the text of the UUID, the
  clock at the creation of the request, the exception (if any) raised while the session is
  opened, initialised and its tools listed, whether the listing inside
  \<^verbatim>\<open>_get_bot_info\<close> returned, the clock just before the prompt is posted, the outcomes
  of the four posting attempts, and the script of the polling loop.
\<close>

record approval_env =
  ae_uuid :: string
  ae_created :: datetime
  ae_session_error :: "py_exception option"
  ae_tools_listed :: bool
  ae_sent :: datetime
  ae_blocks_attempt :: "py_exception option"
  ae_plain_attempt :: "py_exception option"
  ae_alternative_attempt :: "py_exception option"
  ae_json_attempt :: "py_exception option"
  ae_script :: "cycle list"

text \<open>
  The client as \<^verbatim>\<open>request_approval\<close> has set it when the polling starts:
  \<^verbatim>\<open>bot_user_id\<close> is what \<^verbatim>\<open>_get_bot_info\<close> returned and
  \<^verbatim>\<open>message_sent_timestamp\<close> is the clock before the posting.
\<close>

definition polling_client :: "SlackApprovalMCP \<Rightarrow> approval_env \<Rightarrow> SlackApprovalMCP" where
  "polling_client self env =
     (let self = self\<lparr>bot_user_id := get_bot_info (ae_tools_listed env)\<rparr>
      in self\<lparr>message_sent_timestamp := Some (ae_sent env)\<rparr>)"

text \<open>
  The result is \<open>None\<close> when the polling loop does not return within the script,
  \<open>Some (Inl e)\<close> when the call raises and \<open>Some (Inr request)\<close> when it returns.
\<close>

definition request_approval ::
  "(string \<Rightarrow> datetime option) \<Rightarrow> (string \<Rightarrow> nat option) \<Rightarrow> SlackApprovalMCP \<Rightarrow>
   approval_env \<Rightarrow> FileOperation \<Rightarrow> string \<Rightarrow> (py_exception + ApprovalRequest) option" where
  "request_approval fromtimestamp unicode_digit self env operation context =
     (let approval_id = take 8 (ae_uuid env);
          request = new_request approval_id operation (ae_created env) context
      in case ae_session_error env of
           Some e \<Rightarrow> Some (Inl e)
         | None \<Rightarrow>
             (case post_prompt (ae_blocks_attempt env) (ae_plain_attempt env)
                     (ae_alternative_attempt env) (ae_json_attempt env) of
                Inl e \<Rightarrow> Some (Inl e)
              | Inr _ \<Rightarrow>
                  wait_for_response fromtimestamp unicode_digit (polling_client self env)
                    request (ae_script env)))"

subsection \<open>The operations on a request\<close>

text \<open>
  The code changes a request in two places: \<^verbatim>\<open>_process_response\<close> and the assignment
  of \<^verbatim>\<open>TIMEOUT\<close> after the polling loop.
\<close>

datatype request_event = Respond datetime message | Expire

fun apply_event :: "ApprovalRequest \<Rightarrow> request_event \<Rightarrow> ApprovalRequest" where
  "apply_event r (Respond now m) = process_response now m r"
| "apply_event r Expire = r\<lparr>req_status := TIMEOUT\<rparr>"

fun is_Respond :: "request_event \<Rightarrow> bool" where
  "is_Respond (Respond now m) = True"
| "is_Respond Expire = False"

section \<open>file\_agent.py: execution\<close>

text \<open>
  What the program calls outside itself is recorded in a trace, in the order of the calls.
\<close>

datatype event =
    ParseIntent string
  | RequestApproval FileOperation string
  | GenerateCode string
  | ExecuteCode string
  | MoveFileLookup string string

text \<open>Which events of a trace call the approval coordinator, and which the executor.\<close>

fun is_approval_event :: "event \<Rightarrow> bool" where
  "is_approval_event (RequestApproval operation context) = True"
| "is_approval_event _ = False"

fun is_execution_event :: "event \<Rightarrow> bool" where
  "is_execution_event (GenerateCode prompt) = True"
| "is_execution_event (ExecuteCode code) = True"
| "is_execution_event _ = False"

text \<open>A Python value, as far as the program looks at it.\<close>

datatype py_value = PyNone | PyValue string

text \<open>
  The world around one request: the working directory of the process, the clock (as a
  \<^verbatim>\<open>datetime\<close> and as its \<^verbatim>\<open>isoformat()\<close>), and what each outside call gives: the
  intent parser on a user input, the approval coordinator on an operation and a context,
  the code generator on a prompt (\<^verbatim>\<open>_get_ai_generated_code\<close>, with its stripping of
  code fences), and \<^verbatim>\<open>exec\<close> on a code snippet, with the value that
  \<^verbatim>\<open>exec_locals.get("result")\<close> then returns.  A call that raises gives \<open>Inl\<close>.
\<close>

record world =
  w_cwd :: string
  w_now :: datetime
  w_now_iso :: string
  w_parse_intent :: "string \<Rightarrow> py_exception + FileOperation"
  w_request_approval :: "FileOperation \<Rightarrow> string \<Rightarrow> py_exception + ApprovalRequest"
  w_generate :: "string \<Rightarrow> py_exception + string"
  w_exec :: "string \<Rightarrow> py_exception + py_value"

definition get_full_path :: "world \<Rightarrow> FileManagementAgent \<Rightarrow> string \<Rightarrow> string" where
  "get_full_path w agent p = abspath (w_cwd w) (os_path_join (working_directory agent) p)"

definition is_path_allowed :: "FileManagementAgent \<Rightarrow> string \<Rightarrow> py_exception + bool" where
  "is_path_allowed agent p =
     (case commonpath p (working_directory agent) of
        Inl e \<Rightarrow> Inl e
      | Inr common \<Rightarrow> Inr (common = working_directory agent))"

definition base_prompt :: string where
  "base_prompt =
     ''Generate Python code that performs the following file operation and sets the result in a variable named 'result'. ''
     @ ''Use only standard Python libraries (os, shutil). Do not include imports in the code. ''
     @ ''Do not define any functions; write the code directly.''"

definition newline :: string where
  "newline = [CHR 0x0A]"

definition create_operation_prompt :: "FileOperation \<Rightarrow> string \<Rightarrow> string" where
  "create_operation_prompt operation full_path =
     (if op_type operation = LIST
      then base_prompt @ newline @ ''List files in directory: '' @ full_path
           @ ''. Set 'result' to a list of filenames.''
      else if op_type operation = DELETE
      then base_prompt @ newline @ ''Delete the file: '' @ full_path
           @ ''. Set 'result' to a success message or error message.''
      else base_prompt)"

text \<open>
  \<^verbatim>\<open>_execute_code_snippet\<close>: an \<^verbatim>\<open>Exception\<close> of \<^verbatim>\<open>exec\<close> is wrapped into a new
  one; any other exception passes.
\<close>

definition execute_code_snippet :: "world \<Rightarrow> string \<Rightarrow> py_exception + py_value" where
  "execute_code_snippet w code =
     (case w_exec w code of
        Inr v \<Rightarrow> Inr v
      | Inl e \<Rightarrow>
          if is_Exception e
          then Inl (Exception (''Failed to execute AI-generated code: '' @ str_of e @ newline
                               @ ''Code: '' @ code))
          else Inl e)"

text \<open>\<^verbatim>\<open>execute_operation\<close>, with the trace of its outside calls.\<close>

definition execute_operation ::
  "world \<Rightarrow> FileManagementAgent \<Rightarrow> FileOperation \<Rightarrow> (py_exception + py_value) \<times> event list" where
  "execute_operation w agent operation =
     (let full_path = get_full_path w agent (op_path operation)
      in case is_path_allowed agent full_path of
           Inl e \<Rightarrow> (Inl e, [])
         | Inr False \<Rightarrow>
             (Inl (ValueError (''Operation not allowed outside working directory: '' @ full_path)),
              [])
         | Inr True \<Rightarrow>
             (let prompt = create_operation_prompt operation full_path
              in case w_generate w prompt of
                   Inl e \<Rightarrow> (Inl e, [GenerateCode prompt])
                 | Inr code_snippet \<Rightarrow>
                     (execute_code_snippet w code_snippet,
                      [GenerateCode prompt, ExecuteCode code_snippet])))"

text \<open>
  The class \<^verbatim>\<open>FileManagementAgent\<close> defines no method \<^verbatim>\<open>_move_file\<close>.  The expression
  \<^verbatim>\<open>self.agent._move_file(operation.path, trash_path)\<close> therefore raises
  \<^verbatim>\<open>AttributeError\<close> when the attribute is looked up, before anything is moved.
\<close>

definition agent_move_file ::
  "FileManagementAgent \<Rightarrow> string \<Rightarrow> string \<Rightarrow> py_exception + unit" where
  "agent_move_file agent source target =
     Inl (AttributeError ([CHR 0x27] @ ''FileManagementAgent' object has no attribute '_move_file''
            @ [CHR 0x27]))"

section \<open>orchestrator.py\<close>

record AuditLogEntry =
  al_timestamp :: datetime
  al_operation :: FileOperation
  al_required_approval :: bool
  al_approval_status :: "ApprovalStatus option"
  al_approved_by :: "string option"
  al_execution_result :: "string option"
  al_error :: "string option"

text \<open>
  The dictionary that \<^verbatim>\<open>process_request\<close> returns: the keys \<^verbatim>\<open>success\<close> and
  \<^verbatim>\<open>required_approval\<close> are always there, the others are \<open>None\<close> when absent.
\<close>

record result_dict =
  r_success :: bool
  r_result :: "py_value option"
  r_error :: "string option"
  r_required_approval :: bool
  r_approval_status :: "string option"

definition warning_sign :: string where
  "warning_sign = [CHR 0xE2, CHR 0x9A, CHR 0xA0, CHR 0xEF, CHR 0xB8, CHR 0x8F]"

definition create_approval_context :: "FileOperation \<Rightarrow> string \<Rightarrow> string" where
  "create_approval_context operation user_input =
     (let context_parts =
            [''User requested: \"'' @ user_input @ ''\"'',
             newline @ ''This translates to: '' @ OperationType_value (op_type operation)
               @ '' operation'',
             newline @ ''Target path: '' @ op_path operation];
          context_parts =
            (case op_destination operation of
               None \<Rightarrow> context_parts
             | Some dst \<Rightarrow>
                 if truthy dst then context_parts @ [newline @ ''Destination: '' @ dst]
                 else context_parts);
          context_parts =
            (if OperationType_value (op_type operation) = ''delete''
             then context_parts @ [newline @ newline @ warning_sign
                    @ '' **Warning**: This will permanently delete the file/directory'']
             else if OperationType_value (op_type operation) = ''move''
             then context_parts @ [newline @ newline @ warning_sign
                    @ '' **Warning**: This will move the file to a new location'']
             else if OperationType_value (op_type operation) = ''write''
             then context_parts @ [newline @ newline @ warning_sign
                    @ '' **Warning**: This will overwrite any existing content'']
             else context_parts)
      in concat context_parts)"

text \<open>
  \<^verbatim>\<open>_execute_with_fallback\<close>.  The handler is \<^verbatim>\<open>except Exception\<close>; the handler
  around the fallback is a bare \<^verbatim>\<open>except\<close>.
\<close>

definition execute_with_fallback ::
  "world \<Rightarrow> FileManagementAgent \<Rightarrow> FileOperation \<Rightarrow> (py_exception + py_value) \<times> event list" where
  "execute_with_fallback w agent operation =
     (case execute_operation w agent operation of
        (Inr v, trace) \<Rightarrow> (Inr v, trace)
      | (Inl e, trace) \<Rightarrow>
          if \<not> is_Exception e then (Inl e, trace)
          else if OperationType_value (op_type operation) = ''delete''
          then (let trash_path = ''trash/'' @ w_now_iso w @ ''_'' @ op_path operation
                in case agent_move_file agent (op_path operation) trash_path of
                     Inr _ \<Rightarrow>
                       (Inr (PyValue (''File moved to trash: '' @ trash_path)),
                        trace @ [MoveFileLookup (op_path operation) trash_path])
                   | Inl _ \<Rightarrow>
                       (Inl e, trace @ [MoveFileLookup (op_path operation) trash_path]))
          else (Inl e, trace))"

text \<open>
  The body of the inner \<^verbatim>\<open>try\<close> of \<^verbatim>\<open>process_request\<close> with its handler: the branch
  of a high-risk operation.  It gives the dictionary that is returned, or the exception
  that the handler \<^verbatim>\<open>except Exception\<close> did not catch, with the audit log and the trace.
\<close>

definition approval_branch ::
  "world \<Rightarrow> FileManagementAgent \<Rightarrow> string \<Rightarrow> FileOperation \<Rightarrow> AuditLogEntry \<Rightarrow>
   AuditLogEntry list \<Rightarrow> (py_exception + result_dict) \<times> AuditLogEntry list \<times> event list" where
  "approval_branch w agent user_input operation log_entry audit_log =
     (let context = create_approval_context operation user_input;
          asked = [RequestApproval operation context];
          on_error = (\<lambda>log_entry approval_error trace.
            if is_Exception approval_error
            then (Inr \<lparr>r_success = False, r_result = None,
                       r_error = Some (''Failed to get approval: '' @ str_of approval_error),
                       r_required_approval = True, r_approval_status = Some ''error''\<rparr>,
                  audit_log @ [log_entry\<lparr>al_error :=
                     Some (''Approval system error: '' @ str_of approval_error)\<rparr>],
                  trace)
            else (Inl approval_error, audit_log, trace))
      in case w_request_approval w operation context of
           Inl approval_error \<Rightarrow> on_error log_entry approval_error asked
         | Inr approval \<Rightarrow>
             (let log_entry = log_entry\<lparr>al_approval_status := Some (req_status approval),
                                         al_approved_by := responded_by approval\<rparr>
              in if req_status approval = APPROVED
                 then (case execute_with_fallback w agent operation of
                         (Inl e, trace) \<Rightarrow> on_error log_entry e (asked @ trace)
                       | (Inr result, trace) \<Rightarrow>
                           (Inr \<lparr>r_success = True, r_result = Some result, r_error = None,
                                 r_required_approval = True,
                                 r_approval_status = Some ''approved''\<rparr>,
                            audit_log @ [log_entry\<lparr>al_execution_result := Some ''Success''\<rparr>],
                            asked @ trace))
                 else if req_status approval = DENIED
                 then (Inr \<lparr>r_success = False, r_result = None,
                             r_error = Some ''Operation denied by human reviewer'',
                             r_required_approval = True, r_approval_status = Some ''denied''\<rparr>,
                       audit_log @ [log_entry\<lparr>al_execution_result := Some ''Denied''\<rparr>],
                       asked)
                 else (Inr \<lparr>r_success = False, r_result = None,
                             r_error = Some ''Approval request timed out'',
                             r_required_approval = True, r_approval_status = Some ''timeout''\<rparr>,
                       audit_log @ [log_entry\<lparr>al_execution_result := Some ''Timeout''\<rparr>],
                       asked)))"

text \<open>
  \<^verbatim>\<open>process_request\<close>.  The handler of the outer \<^verbatim>\<open>try\<close> is \<^verbatim>\<open>except Exception\<close>
  too, and it is reached from two places: from \<^verbatim>\<open>parse_intent\<close>, when \<^verbatim>\<open>log_entry\<close>
  is still \<^verbatim>\<open>None\<close>, and from the execution of a low-risk operation, when it is set.
  The first component of the result is \<open>Inr\<close> of the dictionary that is returned, or
  \<open>Inl\<close> of the exception that leaves \<^verbatim>\<open>process_request\<close>.
\<close>

definition process_request ::
  "world \<Rightarrow> FileManagementAgent \<Rightarrow> string \<Rightarrow> AuditLogEntry list \<Rightarrow>
   (py_exception + result_dict) \<times> AuditLogEntry list \<times> event list" where
  "process_request w agent user_input audit_log =
     (case w_parse_intent w user_input of
        Inl e \<Rightarrow>
          if is_Exception e
          then (Inr \<lparr>r_success = False, r_result = None, r_error = Some (str_of e),
                     r_required_approval = False, r_approval_status = None\<rparr>,
                audit_log, [ParseIntent user_input])
          else (Inl e, audit_log, [ParseIntent user_input])
      | Inr operation \<Rightarrow>
          (let log_entry =
                 \<lparr>al_timestamp = w_now w, al_operation = operation,
                  al_required_approval = is_high_risk_operation agent operation,
                  al_approval_status = None, al_approved_by = None,
                  al_execution_result = None, al_error = None\<rparr>
           in if is_high_risk_operation agent operation
              then (case approval_branch w agent user_input operation log_entry audit_log of
                      (res, audit_log', trace) \<Rightarrow>
                        (res, audit_log', ParseIntent user_input # trace))
              else (case execute_with_fallback w agent operation of
                      (Inr result, trace) \<Rightarrow>
                        (Inr \<lparr>r_success = True, r_result = Some result, r_error = None,
                              r_required_approval = False, r_approval_status = None\<rparr>,
                         audit_log @ [log_entry\<lparr>al_execution_result := Some ''Success''\<rparr>],
                         ParseIntent user_input # trace)
                    | (Inl e, trace) \<Rightarrow>
                        if is_Exception e
                        then (Inr \<lparr>r_success = False, r_result = None,
                                   r_error = Some (str_of e),
                                   r_required_approval = al_required_approval log_entry,
                                   r_approval_status = None\<rparr>,
                              audit_log @ [log_entry\<lparr>al_error := Some (str_of e)\<rparr>],
                              ParseIntent user_input # trace)
                        else (Inl e, audit_log, ParseIntent user_input # trace))))"

section \<open>Sample inputs\<close>

definition sample_operation :: FileOperation where
  "sample_operation =
     \<lparr>op_type = DELETE, op_path = ''old-backup.zip'', op_destination = None,
      op_content = None\<rparr>"

definition sample_request :: ApprovalRequest where
  "sample_request = new_request ''ab12cd34'' sample_operation 1700000000000000 ''ctx''"

text \<open>The client as \<^verbatim>\<open>request_approval\<close> leaves it before polling.\<close>

definition sample_client :: SlackApprovalMCP where
  "sample_client =
     (SlackApprovalMCP_init ''C09678WRA30'' 5)
       \<lparr>bot_user_id := get_bot_info True, message_sent_timestamp := Some 1700000001000000\<rparr>"

definition sample_fromtimestamp :: "string \<Rightarrow> datetime option" where
  "sample_fromtimestamp s =
     (if s = ''1700000060.000100'' then Some 1700000060000100
      else if s = ''1700000090.000200'' then Some 1700000090000200
      else None)"

definition timeout_script :: "message list \<Rightarrow> cycle list" where
  "timeout_script ms =
     [\<lparr>cy_clock = 1700000061000000, cy_fetch = Fetched ms,
       cy_response_clock = 1700000061500000\<rparr>,
      \<lparr>cy_clock = 1700000300000000, cy_fetch = Fetched [],
       cy_response_clock = 1700000300000000\<rparr>]"

text \<open>
  A call of \<^verbatim>\<open>request_approval\<close> in which the first posting attempt succeeds, the
  channel shows the given messages one minute later, and the next turn of the loop comes
  after the deadline.
\<close>

definition sample_env :: "message list \<Rightarrow> approval_env" where
  "sample_env ms =
     \<lparr>ae_uuid = ''ab12cd34-5e6f-4a7b-8c9d-0e1f2a3b4c5d'', ae_created = 1700000000000000,
      ae_session_error = None, ae_tools_listed = True, ae_sent = 1700000001000000,
      ae_blocks_attempt = None, ae_plain_attempt = None, ae_alternative_attempt = None,
      ae_json_attempt = None, ae_script = timeout_script ms\<rparr>"

definition approved_request :: ApprovalRequest where
  "approved_request =
     sample_request\<lparr>req_status := APPROVED, responded_by := Some ''alice'',
                    response_time := Some 1700000061500000\<rparr>"

text \<open>
  A string message that repeats the prompt, a dictionary message with the reply
  instructions of the prompt, and a click on the Approve button: the action value names
  the request and the text is empty.
\<close>

definition echoed_prompt :: message where
  "echoed_prompt = MStr ''Agent Approval Request. To approve, reply: approve ab12cd34''"

definition prompt_record :: dict_message where
  "prompt_record =
     \<lparr>m_user = Some ''U042'', m_username = Some ''alice'',
      m_text = Some ''To approve, reply: approve ab12cd34'',
      m_ts = Some ''1700000060.000100'', m_value = None, m_attachments = None\<rparr>"

definition button_record :: dict_message where
  "button_record =
     \<lparr>m_user = Some ''U042'', m_username = Some ''alice'', m_text = Some '''',
      m_ts = Some ''1700000060.000100'', m_value = Some ''approve_ab12cd34'',
      m_attachments = None\<rparr>"

definition sample_state :: wait_state where
  "sample_state = \<lparr>ws_request = sample_request, ws_seen = {}, ws_check_interval = 3\<rparr>"

text \<open>
  An agent in \<^verbatim>\<open>/home/user/agent-workspace\<close> and a world in which the intent parser
  returns a given operation, the human approves, the code generator returns a snippet
  and the snippet fails.
\<close>

definition sample_agent :: FileManagementAgent where
  "sample_agent = FileManagementAgent_init ''/home/user'' ''./agent-workspace''"

definition sample_world :: "FileOperation \<Rightarrow> world" where
  "sample_world parsed =
     \<lparr>w_cwd = ''/home/user'', w_now = 1700000000000000, w_now_iso = ''2023-11-14T22:13:20'',
      w_parse_intent = (\<lambda>user_input. Inr parsed),
      w_request_approval =
        (\<lambda>operation context.
           Inr (approved_request\<lparr>req_operation := operation, req_context := context\<rparr>)),
      w_generate = (\<lambda>prompt. Inr ''os.remove(path)''),
      w_exec = (\<lambda>code. Inl (Exception ''[Errno 13] Permission denied''))\<rparr>"

definition unparsed_world :: world where
  "unparsed_world =
     (sample_world sample_operation)
       \<lparr>w_parse_intent := (\<lambda>user_input. Inl (ValueError ''Expecting value: line 1 column 1 (char 0)''))\<rparr>"

definition outside_operation :: FileOperation where
  "outside_operation =
     \<lparr>op_type = DELETE, op_path = ''../secrets.txt'', op_destination = None,
      op_content = None\<rparr>"

text \<open>
  A part of the table of decimal digits outside ASCII: the Arabic-Indic digit three,
  U+0663, whose encoding is the two bytes D9 A3.
\<close>

definition sample_digits :: "string \<Rightarrow> nat option" where
  "sample_digits ch = (if ch = [CHR 0xD9, CHR 0xA3] then Some 3 else None)"

text \<open>
  Error messages of the transport: a rate limit with a hint of thirty seconds, one whose
  first hint is written with the Arabic-Indic digit three, and one whose hint has 4301
  digits.
\<close>

definition rate_limited :: py_exception where
  "rate_limited = Exception ''Rate limit exceeded, retry after 30s''"

definition rate_limited_arabic :: py_exception where
  "rate_limited_arabic =
     Exception (''rate limit retry after '' @ [CHR 0xD9, CHR 0xA3] @ ''s retry after 30s'')"

definition overlong_hint :: py_exception where
  "overlong_hint =
     Exception (''rate limit: retry after '' @ replicate 4301 (CHR ''9'') @ ''s'')"

text \<open>
  A client whose \<^verbatim>\<open>bot_user_id\<close> has been set by hand, and a message of that user
  that approves the request.
\<close>

definition identified_client :: SlackApprovalMCP where
  "identified_client = sample_client\<lparr>bot_user_id := Some ''U0AGENT''\<rparr>"

definition agent_reply :: dict_message where
  "agent_reply =
     \<lparr>m_user = Some ''U0AGENT'', m_username = Some ''hitl-agent'',
      m_text = Some ''approve ab12cd34'', m_ts = Some ''1700000060.000100'',
      m_value = None, m_attachments = None\<rparr>"

text \<open>A world in which the generated code ends the interpreter.\<close>

definition exiting_world :: world where
  "exiting_world =
     (sample_world sample_operation)\<lparr>w_exec := (\<lambda>code. Inl (SystemExit ''1''))\<rparr>"

text \<open>
  A wait whose first fetch raises the given exception and whose next turn comes after the
  deadline.
\<close>

definition error_script :: "py_exception \<Rightarrow> cycle list" where
  "error_script e =
     [\<lparr>cy_clock = 1700000061000000, cy_fetch = Failed e,
       cy_response_clock = 1700000061500000\<rparr>,
      \<lparr>cy_clock = 1700000300000000, cy_fetch = Fetched [],
       cy_response_clock = 1700000300000000\<rparr>]"

section \<open>Properties\<close>

text \<open>
  C8.  For an agent built by the constructor, the risk classifier answers true for the
  operation kinds Delete, Move and Write and false for List and Read, whatever the other
  fields of the operation and whatever the working directory are.  The classifier is a
  total function of the operation kind: it has no error result.
\<close>

theorem C8_risk_classifier:
  "is_high_risk_operation (FileManagementAgent_init cwd wd) operation =
     (case op_type operation of
        LIST \<Rightarrow> False | READ \<Rightarrow> False | DELETE \<Rightarrow> True | MOVE \<Rightarrow> True | WRITE \<Rightarrow> True)"
  by (cases "op_type operation") (simp_all add: is_high_risk_operation_def FileManagementAgent_init_def)

subsection \<open>Facts about \<^verbatim>\<open>_process_response\<close>\<close>

lemma process_response_time: "response_time (process_response now m r) = Some now"
  by (cases m) (simp_all add: process_response_def Let_def)

lemma process_response_status:
  "req_status (process_response now m r) = APPROVED
   \<or> req_status (process_response now m r) = DENIED
   \<or> req_status (process_response now m r) = req_status r"
  by (cases m) (simp_all add: process_response_def Let_def)

lemma process_response_fixed:
  "req_id (process_response now m r) = req_id r"
  "req_operation (process_response now m r) = req_operation r"
  "req_timestamp (process_response now m r) = req_timestamp r"
  "req_context (process_response now m r) = req_context r"
  by (cases m; simp add: process_response_def Let_def)+

lemma run_events_resolved:
  assumes "req_status r = APPROVED \<or> req_status r = DENIED \<longrightarrow> response_time r \<noteq> None"
  shows "req_status (foldl apply_event r evs) = APPROVED
         \<or> req_status (foldl apply_event r evs) = DENIED
         \<longrightarrow> response_time (foldl apply_event r evs) \<noteq> None"
  using assms
proof (induction evs arbitrary: r)
  case Nil
  then show ?case by simp
next
  case (Cons e evs)
  have "req_status (apply_event r e) = APPROVED \<or> req_status (apply_event r e) = DENIED
        \<longrightarrow> response_time (apply_event r e) \<noteq> None"
    using Cons.prems by (cases e) (simp_all add: process_response_time)
  from Cons.IH [OF this] show ?case by simp
qed

lemma run_events_time:
  "(response_time (foldl apply_event r evs) = None)
   = (response_time r = None \<and> \<not> list_ex is_Respond evs)"
proof (induction evs arbitrary: r)
  case Nil
  then show ?case by simp
next
  case (Cons e evs)
  show ?case by (cases e) (simp_all add: Cons.IH process_response_time)
qed

subsection \<open>The request life cycle\<close>

text \<open>
  C3, as stated, fails.  A message that is a candidate response only through its button
  value is handed to \<^verbatim>\<open>_process_response\<close>, which sets \<open>response_time\<close> first and then
  finds no decision in the text: the request stays PENDING with a response time.  When the
  deadline passes afterwards, \<^verbatim>\<open>request_approval\<close> returns that request with status
  TIMEOUT and the response time still set.
\<close>

theorem C3_counterexample:
  "req_status (process_response 1700000061500000 (MDict button_record) sample_request) = PENDING
   \<and> response_time (process_response 1700000061500000 (MDict button_record) sample_request)
       = Some 1700000061500000
   \<and> request_approval sample_fromtimestamp sample_digits (SlackApprovalMCP_init ''C09678WRA30'' 5)
        (sample_env [MDict button_record]) sample_operation ''ctx''
       = Some (Inr (sample_request\<lparr>req_status := TIMEOUT, responded_by := Some ''alice'',
                      response_time := Some 1700000061500000\<rparr>))"
  by (simp add: request_approval_def polling_client_def sample_env_def post_prompt_def
      wait_for_response_def
      timeout_script_def poll_cycle_def for_body_def is_bot_message_def
      is_approval_response_def process_response_def msg_ts_of_def mark_seen_def truthy_def
      lower_def lower_char_def sample_request_def new_request_def button_record_def
      SlackApprovalMCP_init_def get_bot_info_def sample_fromtimestamp_def minutes_def
      seconds_def Let_def)

text \<open>
  C3, amended.  For a request created by \<^verbatim>\<open>request_approval\<close> and every sequence of
  the two operations the code applies to it (\<^verbatim>\<open>_process_response\<close> with any message at
  any time, and the assignment of TIMEOUT): if the status is APPROVED or DENIED then
  \<open>response_time\<close> is set; and \<open>response_time\<close> is null exactly when
  \<^verbatim>\<open>_process_response\<close> was never applied.
\<close>

theorem C3_response_time_amended:
  "(req_status (foldl apply_event (new_request approval_id operation now context) evs) = APPROVED
    \<or> req_status (foldl apply_event (new_request approval_id operation now context) evs) = DENIED
    \<longrightarrow> response_time (foldl apply_event (new_request approval_id operation now context) evs)
          \<noteq> None)
   \<and> ((response_time (foldl apply_event (new_request approval_id operation now context) evs)
         = None)
       = (\<not> list_ex is_Respond evs))"
proof -
  have init: "req_status (new_request approval_id operation now context) = APPROVED
      \<or> req_status (new_request approval_id operation now context) = DENIED
      \<longrightarrow> response_time (new_request approval_id operation now context) \<noteq> None"
    by (simp add: new_request_def)
  have none: "response_time (new_request approval_id operation now context) = None"
    by (simp add: new_request_def)
  show ?thesis
    using run_events_resolved [OF init, of evs] run_events_time [of _ evs] none
    by simp
qed

theorem C3_response_time_amended_witness:
  "req_status (foldl apply_event (new_request ''ab12cd34'' sample_operation 5 ''ctx'')
       [Respond 7 (MStr ''approve ab12cd34''), Expire, Respond 9 (MStr ''deny ab12cd34'')])
     = DENIED
   \<and> response_time (foldl apply_event (new_request ''ab12cd34'' sample_operation 5 ''ctx'')
       [Respond 7 (MStr ''approve ab12cd34''), Expire, Respond 9 (MStr ''deny ab12cd34'')])
     \<noteq> None"
proof -
  have h: "req_status (foldl apply_event (new_request ''ab12cd34'' sample_operation 5 ''ctx'')
       [Respond 7 (MStr ''approve ab12cd34''), Expire, Respond 9 (MStr ''deny ab12cd34'')])
     = DENIED"
    by (simp add: new_request_def process_response_def lower_def lower_char_def)
  from h C3_response_time_amended [of "''ab12cd34''" sample_operation 5 "''ctx''"
      "[Respond 7 (MStr ''approve ab12cd34''), Expire, Respond 9 (MStr ''deny ab12cd34'')]"]
  show ?thesis by simp
qed

text \<open>
  C4, as stated, fails: \<^verbatim>\<open>_process_response\<close> has no guard for a terminal request.
  Applied to an APPROVED request with a denial that names the request, it changes the
  status to DENIED and overwrites the responder and the response time; applied to a
  request that timed out, with an approval, it changes the status to APPROVED.
\<close>

theorem C4_counterexample:
  "process_response 1700000090000000 (MStr ''deny ab12cd34'') approved_request
     = approved_request\<lparr>req_status := DENIED, responded_by := Some ''unknown'',
         response_time := Some 1700000090000000\<rparr>
   \<and> process_response 1700000090000000 (MStr ''deny ab12cd34'') approved_request
       \<noteq> approved_request
   \<and> req_status (process_response 1700000400000000 (MStr ''approve ab12cd34'')
        (sample_request\<lparr>req_status := TIMEOUT\<rparr>)) = APPROVED"
  by (simp add: process_response_def approved_request_def sample_request_def new_request_def
      lower_def lower_char_def)

text \<open>
  C4, amended.  Once the status of a request is terminal, \<^verbatim>\<open>_process_response\<close> with any
  message never returns it to PENDING, and it leaves the identifier, the operation, the
  creation time and the context of the request as they are.  It has no guard for a
  terminal request: on every call it sets the response time to the current time and the
  responder to the author of the message, and it sets the status to APPROVED when the
  lowered text contains \<^verbatim>\<open>approve\<close> and the lowered identifier, to DENIED when it
  contains \<^verbatim>\<open>deny\<close> or \<^verbatim>\<open>reject\<close> and the lowered identifier without
  \<^verbatim>\<open>approve\<close>, and keeps the status otherwise.  In \<^verbatim>\<open>_wait_for_response\<close> the body
  of the loop returns exactly when the message has no identifier that was seen before, is
  not classified as self-originated, is a candidate response, and \<^verbatim>\<open>_process_response\<close>
  has left a status other than PENDING, and it returns that request; when it goes on to
  the next message instead, it hands on a request with the status it received.
\<close>

theorem C4_terminal_amended:
  "(req_status r \<noteq> PENDING \<longrightarrow> req_status (process_response now m r) \<noteq> PENDING)
   \<and> req_id (process_response now m r) = req_id r
   \<and> req_operation (process_response now m r) = req_operation r
   \<and> req_timestamp (process_response now m r) = req_timestamp r
   \<and> req_context (process_response now m r) = req_context r
   \<and> response_time (process_response now m r) = Some now
   \<and> responded_by (process_response now m r)
       = Some (case m of
                 MDict d \<Rightarrow> get_or (m_username d) (get_or (m_user d) ''unknown'')
               | MStr s \<Rightarrow> ''unknown''
               | MOther s \<Rightarrow> ''unknown'')
   \<and> req_status (process_response now m r)
       = (let text_lower = lower (case m of
                                    MDict d \<Rightarrow> get_or (m_text d) ''''
                                  | MStr s \<Rightarrow> s
                                  | MOther s \<Rightarrow> s)
          in if str_in ''approve'' text_lower \<and> str_in (lower (req_id r)) text_lower
             then APPROVED
             else if (str_in ''deny'' text_lower \<or> str_in ''reject'' text_lower)
                     \<and> str_in (lower (req_id r)) text_lower
             then DENIED
             else req_status r)
   \<and> (for_body ft self now r seen m = Return r')
       = (\<not> (truthy (msg_ts_of m) \<and> msg_ts_of m \<in> seen)
          \<and> \<not> is_bot_message ft self m
          \<and> is_approval_response m (req_id r)
          \<and> r' = process_response now m r
          \<and> req_status (process_response now m r) \<noteq> PENDING)
   \<and> (for_body ft self now r seen m = Continue r' s' \<longrightarrow> req_status r' = req_status r)"
proof -
  have a: "req_status r \<noteq> PENDING \<longrightarrow> req_status (process_response now m r) \<noteq> PENDING"
    using process_response_status [of now m r] by auto
  have b: "responded_by (process_response now m r)
       = Some (case m of
                 MDict d \<Rightarrow> get_or (m_username d) (get_or (m_user d) ''unknown'')
               | MStr s \<Rightarrow> ''unknown''
               | MOther s \<Rightarrow> ''unknown'')"
    by (cases m) (simp_all add: process_response_def Let_def)
  have c: "req_status (process_response now m r)
       = (let text_lower = lower (case m of
                                    MDict d \<Rightarrow> get_or (m_text d) ''''
                                  | MStr s \<Rightarrow> s
                                  | MOther s \<Rightarrow> s)
          in if str_in ''approve'' text_lower \<and> str_in (lower (req_id r)) text_lower
             then APPROVED
             else if (str_in ''deny'' text_lower \<or> str_in ''reject'' text_lower)
                     \<and> str_in (lower (req_id r)) text_lower
             then DENIED
             else req_status r)"
    by (cases m) (simp_all add: process_response_def Let_def)
  have d: "(for_body ft self now r seen m = Return r')
       = (\<not> (truthy (msg_ts_of m) \<and> msg_ts_of m \<in> seen)
          \<and> \<not> is_bot_message ft self m
          \<and> is_approval_response m (req_id r)
          \<and> r' = process_response now m r
          \<and> req_status (process_response now m r) \<noteq> PENDING)"
    by (auto simp: for_body_def Let_def split: if_splits)
  have e: "for_body ft self now r seen m = Continue r' s' \<longrightarrow> req_status r' = req_status r"
    using process_response_status [of now m r]
    by (auto simp: for_body_def Let_def split: if_splits)
  have f: "req_id (process_response now m r) = req_id r
      \<and> req_operation (process_response now m r) = req_operation r
      \<and> req_timestamp (process_response now m r) = req_timestamp r
      \<and> req_context (process_response now m r) = req_context r
      \<and> response_time (process_response now m r) = Some now"
    by (simp add: process_response_fixed process_response_time)
  from a b c d e f show ?thesis by blast
qed

theorem C4_terminal_amended_witness:
  "req_status approved_request \<noteq> PENDING
   \<and> req_status (process_response 1700000090000000 (MStr ''deny ab12cd34'') approved_request)
       \<noteq> PENDING
   \<and> for_body sample_fromtimestamp sample_client 1700000090000000 approved_request {}
        (MStr ''deny ab12cd34'')
       = Return (process_response 1700000090000000 (MStr ''deny ab12cd34'') approved_request)
   \<and> req_status (process_response 1700000090000000 (MStr ''deny ab12cd34'') approved_request)
       = DENIED"
proof -
  have h: "req_status approved_request \<noteq> PENDING"
    by (simp add: approved_request_def)
  have f: "for_body sample_fromtimestamp sample_client 1700000090000000 approved_request {}
        (MStr ''deny ab12cd34'')
       = Return (process_response 1700000090000000 (MStr ''deny ab12cd34'') approved_request)"
    by (simp add: for_body_def is_bot_message_def is_approval_response_def
        process_response_def msg_ts_of_def mark_seen_def truthy_def lower_def lower_char_def
        approved_request_def sample_request_def new_request_def Let_def)
  have s: "req_status (process_response 1700000090000000 (MStr ''deny ab12cd34'')
        approved_request) = DENIED"
    by (simp add: process_response_def approved_request_def sample_request_def
        new_request_def lower_def lower_char_def Let_def)
  from h f s
    C4_terminal_amended [of approved_request 1700000090000000 "MStr ''deny ab12cd34''"
      sample_fromtimestamp sample_client "{}"
      "process_response 1700000090000000 (MStr ''deny ab12cd34'') approved_request"]
  show ?thesis by blast
qed

subsection \<open>Facts about the polling loop\<close>

lemma process_response_undecided:
  assumes "\<not> (str_in (lower rid) (lower (case m of MDict d \<Rightarrow> get_or (m_text d) [] | MStr s \<Rightarrow> s | MOther s \<Rightarrow> s))
        \<and> (str_in ''approve'' (lower (case m of MDict d \<Rightarrow> get_or (m_text d) [] | MStr s \<Rightarrow> s | MOther s \<Rightarrow> s))
           \<or> str_in ''deny'' (lower (case m of MDict d \<Rightarrow> get_or (m_text d) [] | MStr s \<Rightarrow> s | MOther s \<Rightarrow> s))
           \<or> str_in ''reject'' (lower (case m of MDict d \<Rightarrow> get_or (m_text d) [] | MStr s \<Rightarrow> s | MOther s \<Rightarrow> s))))"
    and "req_id r = rid"
  shows "req_status (process_response now m r) = req_status r"
  using assms by (cases m) (auto simp: process_response_def Let_def)

lemma mark_seen_mono: "seen \<subseteq> mark_seen ts seen"
  by (auto simp: mark_seen_def)

lemma for_body_Continue:
  assumes "for_body ft self now request seen m = Continue r' s'"
  shows "(truthy (msg_ts_of m) \<and> msg_ts_of m \<in> seen \<and> r' = request \<and> s' = seen)
       \<or> (\<not> (truthy (msg_ts_of m) \<and> msg_ts_of m \<in> seen) \<and> s' = mark_seen (msg_ts_of m) seen
           \<and> ((is_bot_message ft self m \<or> \<not> is_approval_response m (req_id request)) \<and> r' = request
              \<or> \<not> is_bot_message ft self m \<and> is_approval_response m (req_id request)
                 \<and> r' = process_response now m request \<and> req_status r' = PENDING))"
  using assms by (auto simp: for_body_def Let_def split: if_splits)

lemma for_body_seen:
  assumes "for_body ft self now request seen m = Continue r' s'"
  shows "seen \<subseteq> s'" and "truthy (msg_ts_of m) \<Longrightarrow> msg_ts_of m \<in> s'" 
    and "req_id r' = req_id request"
  using for_body_Continue [OF assms] 
  by (auto simp: mark_seen_def process_response_fixed)

lemma for_body_skip:
  "truthy (msg_ts_of m) \<Longrightarrow> msg_ts_of m \<in> seen \<Longrightarrow> for_body ft self now request seen m = Continue request seen"
  by (simp add: for_body_def)

lemma for_messages_seen:
  assumes "for_messages ft self now request seen ms = Continue r' s'"
  shows "seen \<subseteq> s' \<and> (\<forall>m\<in>set ms. truthy (msg_ts_of m) \<longrightarrow> msg_ts_of m \<in> s') \<and> req_id r' = req_id request"
  using assms
proof (induction ms arbitrary: request seen)
  case Nil
  then show ?case by simp
next
  case (Cons m ms)
  from Cons.prems obtain r1 s1 where b: "for_body ft self now request seen m = Continue r1 s1"
    and rest: "for_messages ft self now r1 s1 ms = Continue r' s'"
    by (auto split: for_result.splits)
  from Cons.IH [OF rest] for_body_seen [OF b] show ?case by auto
qed

lemma for_messages_skip_all:
  assumes "\<forall>m\<in>set ms. truthy (msg_ts_of m) \<and> msg_ts_of m \<in> seen"
  shows "for_messages ft self now request seen ms = Continue request seen"
  using assms by (induction ms) (simp_all add: for_body_skip)

lemma process_response_status_indep:
  assumes "req_id r2 = req_id r" "req_status (process_response now m r) = PENDING" "req_status r2 = PENDING"
  shows "req_status (process_response now2 m r2) = PENDING"
  using assms by (cases m) (auto simp: process_response_def Let_def split: if_splits)

lemma for_body_again:
  assumes b: "for_body ft self now request seen m = Continue r' s'"
    and sub: "s' \<subseteq> seen2" and id2: "req_id request2 = req_id request"
    and p2: "req_status request2 = PENDING"
  shows "\<exists>r2 s2. for_body ft self now2 request2 seen2 m = Continue r2 s2
            \<and> seen2 \<subseteq> s2 \<and> req_id r2 = req_id request \<and> req_status r2 = PENDING"
proof (cases "truthy (msg_ts_of m)")
  case True
  with for_body_seen(2) [OF b] sub have "msg_ts_of m \<in> seen2" by auto
  with True id2 p2 show ?thesis by (simp add: for_body_skip)
next
  case False
  then have ms: "mark_seen (msg_ts_of m) seen2 = seen2" by (simp add: mark_seen_def)
  from for_body_Continue [OF b] False
  consider "is_bot_message ft self m \<or> \<not> is_approval_response m (req_id request)"
    | "\<not> is_bot_message ft self m" "is_approval_response m (req_id request)"
      "req_status (process_response now m request) = PENDING"
    by auto
  then show ?thesis
  proof cases
    case 1
    then show ?thesis using False id2 p2 ms by (auto simp: for_body_def Let_def)
  next
    case 2
    from process_response_status_indep [OF id2 2(3) p2]
    have "req_status (process_response now2 m request2) = PENDING" .
    then show ?thesis using 2 False id2 ms
      by (auto simp: for_body_def Let_def process_response_fixed)
  qed
qed

lemma for_messages_again:
  assumes "for_messages ft self now request seen ms = Continue r' s'"
    and "s' \<subseteq> seen2" and "req_id request2 = req_id request"
    and "req_status request2 = PENDING"
  shows "\<exists>r2 s2. for_messages ft self now2 request2 seen2 ms = Continue r2 s2
            \<and> req_id r2 = req_id request \<and> req_status r2 = PENDING"
  using assms
proof (induction ms arbitrary: request seen request2 seen2)
  case Nil
  then show ?case by simp
next
  case (Cons m ms)
  from Cons.prems(1) obtain r1 s1 where b: "for_body ft self now request seen m = Continue r1 s1"
    and rest: "for_messages ft self now r1 s1 ms = Continue r' s'"
    by (auto split: for_result.splits)
  from for_messages_seen [OF rest] have "s1 \<subseteq> s'" by simp
  with Cons.prems(2) have "s1 \<subseteq> seen2" by auto
  from for_body_again [OF b this Cons.prems(3,4), of now2]
  obtain r2 s2 where b2: "for_body ft self now2 request2 seen2 m = Continue r2 s2"
    and sub2: "seen2 \<subseteq> s2" and id2: "req_id r2 = req_id request" and p2: "req_status r2 = PENDING"
    by blast
  from for_body_seen(3) [OF b] id2 have id2': "req_id r2 = req_id r1" by simp
  from Cons.prems(2) sub2 have "s' \<subseteq> s2" by auto
  from Cons.IH [OF rest this id2' p2]
  show ?case using b2 for_body_seen(3) [OF b] by auto
qed

lemma for_messages_invariant:
  assumes step: "\<And>m request seen. m \<in> set ms \<Longrightarrow> I request \<Longrightarrow>
             \<exists>r' s'. for_body ft self now request seen m = Continue r' s' \<and> I r'"
    and "I request"
  shows "\<exists>r' s'. for_messages ft self now request seen ms = Continue r' s' \<and> I r'"
  using assms
proof (induction ms arbitrary: request seen)
  case Nil
  then show ?case by simp
next
  case (Cons m ms)
  from Cons.prems(1) [of m request seen] Cons.prems(2)
  obtain r1 s1 where b: "for_body ft self now request seen m = Continue r1 s1" and i: "I r1"
    by auto
  have "\<exists>r' s'. for_messages ft self now r1 s1 ms = Continue r' s' \<and> I r'"
    using Cons.prems(1) i by (intro Cons.IH) auto
  with b show ?case by auto
qed

lemma for_body_status:
  assumes "for_body ft self now request seen m = Continue r' s'"
  shows "req_status r' = req_status request"
  using for_body_Continue [OF assms] process_response_status [of now m request]
  by auto

lemma for_messages_status:
  assumes "for_messages ft self now request seen ms = Continue r' s'"
  shows "req_status r' = req_status request"
  using assms
proof (induction ms arbitrary: request seen)
  case Nil
  then show ?case by simp
next
  case (Cons m ms)
  from Cons.prems obtain r1 s1 where b: "for_body ft self now request seen m = Continue r1 s1"
    and rest: "for_messages ft self now r1 s1 ms = Continue r' s'"
    by (auto split: for_result.splits)
  from Cons.IH [OF rest] for_body_status [OF b] show ?case by simp
qed

lemma wait_loop_invariant:
  assumes step: "\<And>cy ms m request seen. cy \<in> set script \<Longrightarrow> cy_fetch cy = Fetched ms \<Longrightarrow>
             m \<in> set ms \<Longrightarrow> I request \<Longrightarrow>
             \<exists>r' s'. for_body ft self (cy_response_clock cy) request seen m = Continue r' s' \<and> I r'"
    and fetched: "\<And>cy. cy \<in> set script \<Longrightarrow> \<exists>ms. cy_fetch cy = Fetched ms"
    and "I (ws_request st)"
    and "wait_loop ft dg self T st script = Some res"
  shows "\<exists>r0. I r0 \<and> res = Inr (r0\<lparr>req_status := TIMEOUT\<rparr>)"
  using assms
proof (induction script arbitrary: st)
  case Nil
  then show ?case by simp
next
  case (Cons cy script)
  show ?case
  proof (cases "cy_clock cy < T")
    case False
    with Cons.prems(3,4) show ?thesis by auto
  next
    case True
    from Cons.prems(2) [of cy] obtain ms where ms: "cy_fetch cy = Fetched ms" by auto
    have "\<exists>r' s'. for_messages ft self (cy_response_clock cy) (ws_request st) (ws_seen st) ms
             = Continue r' s' \<and> I r'"
      using Cons.prems(1) [of cy ms] ms Cons.prems(3)
      by (intro for_messages_invariant) auto
    with ms obtain sleeps st' where
      pc: "poll_cycle ft dg self (cy_response_clock cy) st (cy_fetch cy) = Again sleeps st'"
      and i: "I (ws_request st')"
      by (auto simp: poll_cycle_def)
    from Cons.prems(4) True pc have w: "wait_loop ft dg self T st' script = Some res" by simp
    show ?thesis
      using Cons.prems(1,2) i w by (intro Cons.IH [of st']) auto
  qed
qed

lemma wait_loop_returns:
  assumes "\<exists>cy\<in>set script. T \<le> cy_clock cy"
  shows "\<exists>res. wait_loop ft dg self T st script = Some res"
  using assms
proof (induction script arbitrary: st)
  case Nil
  then show ?case by simp
next
  case (Cons cy script)
  show ?case
  proof (cases "cy_clock cy < T")
    case False
    then show ?thesis by simp
  next
    case True
    with Cons.prems have later: "\<exists>cy\<in>set script. T \<le> cy_clock cy" by auto
    show ?thesis
    proof (cases "poll_cycle ft dg self (cy_response_clock cy) st (cy_fetch cy)")
      case (Done r)
      with True show ?thesis by simp
    next
      case (Again sleeps st')
      with True Cons.IH [OF later, of st'] show ?thesis by simp
    next
      case (Raised e)
      with True show ?thesis by simp
    qed
  qed
qed

subsection \<open>Facts about the retry hint\<close>

lemma chars_of_ascii:
  "\<forall>c\<in>set s. (of_char c :: nat) < 128 \<Longrightarrow> chars_of s = literal s"
  by (induction s) (simp_all add: utf8_length_def literal_def)

lemma not_digit_unit: "u = ''m'' \<or> u = ''s'' \<Longrightarrow> \<not> is_digit dg u"
  by (auto simp: is_digit_def decimal_digit_def)

lemma match_retry_at_Some:
  assumes "match_retry_at dg s = Some (ds, u)"
  shows "ds \<noteq> [] \<and> list_all (is_digit dg) ds \<and> (u = ''m'' \<or> u = ''s'')"
proof -
  from assms have ds: "ds = takeWhile (is_digit dg) (drop 12 s)" and ne: "ds \<noteq> []"
    and u: "u = ''m'' \<or> u = ''s''"
    by (auto simp: match_retry_at_def Let_def split: if_splits list.splits)
  have "list_all (is_digit dg) (takeWhile (is_digit dg) (drop 12 s))"
    by (auto simp: list_all_iff dest: set_takeWhileD)
  with ds ne u show ?thesis by simp
qed

lemma search_retry_Some:
  assumes "search_retry dg s = Some (ds, u)"
  shows "ds \<noteq> [] \<and> list_all (is_digit dg) ds \<and> (u = ''m'' \<or> u = ''s'')"
  using assms
proof (induction s)
  case Nil
  then show ?case by simp
next
  case (Cons c cs)
  show ?case
  proof (cases "match_retry_at dg (c # cs)")
    case None
    with Cons show ?thesis by simp
  next
    case (Some r)
    with Cons.prems have "match_retry_at dg (c # cs) = Some (ds, u)" by simp
    then show ?thesis by (rule match_retry_at_Some)
  qed
qed

lemma py_int_within:
  assumes "ds \<noteq> []" "list_all (is_digit dg) ds" "length ds \<le> 4300"
  shows "\<exists>v. py_int dg ds = Inr v"
  using assms by (simp add: py_int_def)

lemma py_int_beyond:
  assumes "ds \<noteq> []" "list_all (is_digit dg) ds" "4300 < length ds"
  shows "py_int dg ds = Inl (ValueError (int_limit_message (length ds)))"
  using assms by (simp add: py_int_def)

lemma match_retry_at_run:
  assumes "\<forall>d\<in>set ds. is_digit dg d" "ds \<noteq> []" "u = ''m'' \<or> u = ''s''"
  shows "match_retry_at dg (literal ''retry after '' @ ds @ u # rest) = Some (ds, u)"
proof -
  have l: "length (literal ''retry after '') = 12" by (simp add: literal_def)
  have nd: "\<not> is_digit dg u" using assms(3) by (rule not_digit_unit)
  have t: "takeWhile (is_digit dg) (ds @ u # rest) = ds"
    using assms(1) nd by (simp add: takeWhile_append2)
  have d: "dropWhile (is_digit dg) (ds @ u # rest) = u # rest"
    using assms(1) nd by (simp add: dropWhile_append2)
  show ?thesis
    using assms(2,3) l t d by (simp add: match_retry_at_def Let_def)
qed

lemma search_retry_run:
  assumes "\<forall>d\<in>set ds. is_digit dg d" "ds \<noteq> []" "u = ''m'' \<or> u = ''s''"
  shows "search_retry dg (literal ''retry after '' @ ds @ u # rest) = Some (ds, u)"
proof -
  obtain c cs where eq: "literal ''retry after '' @ ds @ u # rest = c # cs"
    by (simp add: literal_def)
  from match_retry_at_run [OF assms, of rest] eq
  have "match_retry_at dg (c # cs) = Some (ds, u)" by simp
  then have "search_retry dg (c # cs) = Some (ds, u)" by simp
  with eq show ?thesis by simp
qed

lemma search_retry_skip:
  "search_retry dg (literal ''rate limit: '' @ rest) = search_retry dg rest"
  by (simp add: literal_def match_retry_at_def)

lemma overlong_hint_search:
  "search_retry dg (chars_of (str_of overlong_hint)) = Some (replicate 4301 ''9'', ''s'')"
proof -
  have "chars_of (str_of overlong_hint) = literal (str_of overlong_hint)"
    by (rule chars_of_ascii) (auto simp: overlong_hint_def)
  also have "\<dots> = literal ''rate limit: ''
      @ (literal ''retry after '' @ replicate 4301 ''9'' @ ''s'' # [])"
    by (simp add: overlong_hint_def literal_def)
  finally have c: "chars_of (str_of overlong_hint) = literal ''rate limit: ''
      @ (literal ''retry after '' @ replicate 4301 ''9'' @ ''s'' # [])" .
  have d: "\<forall>d\<in>set (replicate 4301 ''9''). is_digit dg d"
    by (simp add: is_digit_def decimal_digit_def)
  have n: "replicate 4301 ''9'' \<noteq> ([] :: string list)" by simp
  from search_retry_run [OF d n, of "''s''" "[]"]
  show ?thesis by (simp only: c search_retry_skip) simp
qed

lemma poll_cycle_beyond:
  assumes "is_Exception e" "str_in ''rate limit'' (lower (str_of e))"
    "search_retry dg (chars_of (str_of e)) = Some (ds, u)" "4300 < length ds"
  shows "poll_cycle ft dg self now st (Failed e)
           = Raised (ValueError (int_limit_message (length ds)))"
proof -
  from assms(3) search_retry_Some [of dg "chars_of (str_of e)" ds u]
  have ok: "ds \<noteq> []" "list_all (is_digit dg) ds" by auto
  from py_int_beyond [OF ok assms(4)] assms(1,2,3)
  show ?thesis by (simp add: poll_cycle_def Let_def)
qed

lemma poll_cycle_Failed:
  assumes "is_Exception e"
    and "\<not> (str_in ''rate limit'' (lower (str_of e))
            \<and> (\<exists>ds u. search_retry dg (chars_of (str_of e)) = Some (ds, u) \<and> 4300 < length ds))"
  shows "\<exists>sleeps st'. poll_cycle ft dg self now st (Failed e) = Again sleeps st'
      \<and> ws_request st' = ws_request st \<and> ws_seen st' = ws_seen st"
proof (cases "str_in ''rate limit'' (lower (str_of e))")
  case False
  with assms(1) show ?thesis by (simp add: poll_cycle_def Let_def)
next
  case True
  show ?thesis
  proof (cases "search_retry dg (chars_of (str_of e))")
    case None
    with True assms(1) show ?thesis by (simp add: poll_cycle_def Let_def)
  next
    case (Some r)
    obtain ds u where r: "r = (ds, u)" by (cases r)
    from Some r search_retry_Some [of dg "chars_of (str_of e)" ds u]
    have ok: "ds \<noteq> []" "list_all (is_digit dg) ds" by auto
    from assms(2) True Some r have "length ds \<le> 4300" by auto
    from py_int_within [OF ok this] obtain v where "py_int dg ds = Inr v" by blast
    with True Some r assms(1) show ?thesis by (simp add: poll_cycle_def Let_def)
  qed
qed

lemma wait_loop_all_failed:
  assumes "\<forall>cy\<in>set script. \<exists>x. cy_fetch cy = Failed x \<and> is_Exception x
             \<and> \<not> (str_in ''rate limit'' (lower (str_of x))
                    \<and> (\<exists>ds u. search_retry dg (chars_of (str_of x)) = Some (ds, u)
                                \<and> 4300 < length ds))"
  shows "wait_loop ft dg self T st script =
           (if list_ex (\<lambda>cy. T \<le> cy_clock cy) script
            then Some (Inr ((ws_request st)\<lparr>req_status := TIMEOUT\<rparr>)) else None)"
  using assms
proof (induction script arbitrary: st)
  case Nil
  then show ?case by simp
next
  case (Cons cy script)
  from Cons.prems obtain x where x: "cy_fetch cy = Failed x" and ex: "is_Exception x"
    and ok: "\<not> (str_in ''rate limit'' (lower (str_of x))
                 \<and> (\<exists>ds u. search_retry dg (chars_of (str_of x)) = Some (ds, u)
                             \<and> 4300 < length ds))"
    by auto
  from poll_cycle_Failed [OF ex ok, of ft self "cy_response_clock cy" st]
  obtain sleeps st' where
    pc: "poll_cycle ft dg self (cy_response_clock cy) st (Failed x) = Again sleeps st'"
    and rq: "ws_request st' = ws_request st" by blast
  from Cons.prems have rest: "\<forall>cy\<in>set script. \<exists>x. cy_fetch cy = Failed x \<and> is_Exception x
             \<and> \<not> (str_in ''rate limit'' (lower (str_of x))
                    \<and> (\<exists>ds u. search_retry dg (chars_of (str_of x)) = Some (ds, u)
                                \<and> 4300 < length ds))"
    by simp
  show ?case
    using x pc rq Cons.IH [OF rest, of st'] by auto
qed

lemmas sample_run =
  wait_for_response_def timeout_script_def poll_cycle_def for_body_def
  is_bot_message_def is_approval_response_def process_response_def msg_ts_of_def
  mark_seen_def truthy_def lower_def lower_char_def sample_request_def new_request_def
  sample_client_def SlackApprovalMCP_init_def get_bot_info_def
  sample_fromtimestamp_def minutes_def seconds_def

subsection \<open>Self-originated messages\<close>

text \<open>
  C2, as stated, fails for a message that is not a dictionary: \<^verbatim>\<open>_is_bot_message\<close>
  answers false for every such message in its first statement, while
  \<^verbatim>\<open>_is_approval_response\<close> and \<^verbatim>\<open>_process_response\<close> read the text of a string
  message.  A string message that carries both marker texts, the request ID and the word
  approve is not classified as self-originated, and the polling loop resolves the request
  to APPROVED from it.  The part about the author says nothing in a run of
  \<^verbatim>\<open>request_approval\<close>: no bot identity is known there, since \<^verbatim>\<open>_get_bot_info\<close>
  returns \<^verbatim>\<open>None\<close>, and a message written from the account of the agent itself,
  without a marker, is not classified as self-originated and resolves the request.
\<close>

theorem C2_counterexample:
  "\<not> is_bot_message sample_fromtimestamp sample_client echoed_prompt
   \<and> wait_for_response sample_fromtimestamp sample_digits sample_client sample_request
        (timeout_script [echoed_prompt])
       = Some (Inr (sample_request\<lparr>req_status := APPROVED, responded_by := Some ''unknown'',
                      response_time := Some 1700000061500000\<rparr>))
   \<and> request_approval sample_fromtimestamp sample_digits
        (SlackApprovalMCP_init ''C09678WRA30'' 5) (sample_env [MDict agent_reply])
        sample_operation ''ctx''
       = Some (Inr (sample_request\<lparr>req_status := APPROVED,
                      responded_by := Some ''hitl-agent'',
                      response_time := Some 1700000061500000\<rparr>))"
  by (simp add: sample_run echoed_prompt_def agent_reply_def request_approval_def
      polling_client_def sample_env_def post_prompt_def Let_def)

text \<open>
  C2, amended.  For every channel message that is a dictionary, with strings as the
  values of the fields it has, and whose text contains one of the marker strings of the
  prompt, and also for one whose \<^verbatim>\<open>user\<close> is the non-empty \<^verbatim>\<open>bot_user_id\<close> of the
  client: \<^verbatim>\<open>_is_bot_message\<close> classifies it as self-originated; the body of the loop
  goes on to the next message with the request unchanged, whatever the text of the message
  says; and a wait that is fed nothing but this message returns only at the deadline, and
  does return once the clock has reached it, with the request it started from and the
  status TIMEOUT.  A message that is not a dictionary is never classified as
  self-originated.  In a run of \<^verbatim>\<open>request_approval\<close> the
  \<^verbatim>\<open>bot_user_id\<close> of the client is \<^verbatim>\<open>None\<close>, so the author of a message has no
  part in the classification there: only the marker strings (and the display name and
  the time of the message) have.
\<close>

theorem C2_self_originated_amended:
  assumes "(\<exists>b. bot_user_id self = Some b \<and> b \<noteq> [] \<and> m_user d = Some b)
           \<or> str_in ''Agent Approval Request'' (get_or (m_text d) '''')
           \<or> str_in ''To approve, reply:'' (get_or (m_text d) '''')"
  shows "is_bot_message ft self (MDict d)
     \<and> (\<exists>s'. for_body ft self now request seen (MDict d) = Continue request s')
     \<and> ((\<forall>cy\<in>set script. \<exists>n. cy_fetch cy = Fetched (replicate n (MDict d)))
           \<and> wait_loop ft dg self T st script = Some res
         \<longrightarrow> res = Inr ((ws_request st)\<lparr>req_status := TIMEOUT\<rparr>))
     \<and> ((\<forall>cy\<in>set script. \<exists>n. cy_fetch cy = Fetched (replicate n (MDict d)))
           \<and> (\<exists>cy\<in>set script. T \<le> cy_clock cy)
         \<longrightarrow> wait_loop ft dg self T st script
               = Some (Inr ((ws_request st)\<lparr>req_status := TIMEOUT\<rparr>)))
     \<and> \<not> is_bot_message ft self (MStr s)
     \<and> \<not> is_bot_message ft self (MOther s)
     \<and> bot_user_id (polling_client self0 env) = None
     \<and> is_bot_message ft (polling_client self0 env) (MDict (d'\<lparr>m_user := u\<rparr>))
         = is_bot_message ft (polling_client self0 env) (MDict d')"
proof -
  have a: "is_bot_message ft self (MDict d)"
    using assms by (auto simp: is_bot_message_def Let_def truthy_def split: option.splits)
  have step: "\<exists>s'. for_body ft self t q sn (MDict d) = Continue q s'"
    for t and q :: ApprovalRequest and sn
    using a by (simp add: for_body_def Let_def)
  have c: "(\<forall>cy\<in>set script. \<exists>n. cy_fetch cy = Fetched (replicate n (MDict d)))
           \<and> wait_loop ft dg self T st script = Some res
         \<longrightarrow> res = Inr ((ws_request st)\<lparr>req_status := TIMEOUT\<rparr>)" for res
  proof
    assume h: "(\<forall>cy\<in>set script. \<exists>n. cy_fetch cy = Fetched (replicate n (MDict d)))
           \<and> wait_loop ft dg self T st script = Some res"
    have "\<exists>r0. r0 = ws_request st \<and> res = Inr (r0\<lparr>req_status := TIMEOUT\<rparr>)"
    proof (rule wait_loop_invariant [where script = script and st = st and ft = ft
          and self = self and T = T and dg = dg])
      fix cy ms m sn and q :: ApprovalRequest
      assume "cy \<in> set script" "cy_fetch cy = Fetched ms" "m \<in> set ms" "q = ws_request st"
      with h have "m = MDict d" by fastforce
      with step [of "cy_response_clock cy" q sn] \<open>q = ws_request st\<close>
      show "\<exists>r' s'. for_body ft self (cy_response_clock cy) q sn m = Continue r' s'
              \<and> r' = ws_request st"
        by auto
    next
      fix cy
      assume "cy \<in> set script"
      with h show "\<exists>ms. cy_fetch cy = Fetched ms" by fastforce
    next
      show "ws_request st = ws_request st" by simp
    next
      show "wait_loop ft dg self T st script = Some res" using h by simp
    qed
    then show "res = Inr ((ws_request st)\<lparr>req_status := TIMEOUT\<rparr>)" by simp
  qed
  have n: "\<not> is_bot_message ft self (MStr s) \<and> \<not> is_bot_message ft self (MOther s)"
    by (simp add: is_bot_message_def)
  have b: "bot_user_id (polling_client self0 env) = None"
    by (simp add: polling_client_def get_bot_info_def Let_def)
  have u: "is_bot_message ft (polling_client self0 env) (MDict (d'\<lparr>m_user := u\<rparr>))
         = is_bot_message ft (polling_client self0 env) (MDict d')"
    using b by (simp add: is_bot_message_def Let_def)
  have r: "(\<forall>cy\<in>set script. \<exists>n. cy_fetch cy = Fetched (replicate n (MDict d)))
           \<and> (\<exists>cy\<in>set script. T \<le> cy_clock cy)
         \<longrightarrow> wait_loop ft dg self T st script
               = Some (Inr ((ws_request st)\<lparr>req_status := TIMEOUT\<rparr>))"
  proof
    assume h: "(\<forall>cy\<in>set script. \<exists>n. cy_fetch cy = Fetched (replicate n (MDict d)))
           \<and> (\<exists>cy\<in>set script. T \<le> cy_clock cy)"
    then obtain res where w: "wait_loop ft dg self T st script = Some res"
      using wait_loop_returns [of script T ft dg self st] by blast
    with h c [of res] show "wait_loop ft dg self T st script
               = Some (Inr ((ws_request st)\<lparr>req_status := TIMEOUT\<rparr>))"
      by simp
  qed
  from a step [of now request seen] c [of res] r n b u show ?thesis by blast
qed

theorem C2_self_originated_amended_witness:
  "str_in ''To approve, reply:'' (get_or (m_text prompt_record) '''')
   \<and> is_bot_message sample_fromtimestamp sample_client (MDict prompt_record)
   \<and> wait_for_response sample_fromtimestamp sample_digits sample_client sample_request
        (timeout_script [MDict prompt_record])
       = Some (Inr (sample_request\<lparr>req_status := TIMEOUT\<rparr>))
   \<and> bot_user_id identified_client = Some ''U0AGENT''
   \<and> m_user agent_reply = Some ''U0AGENT''
   \<and> is_bot_message sample_fromtimestamp identified_client (MDict agent_reply)
   \<and> \<not> is_bot_message sample_fromtimestamp sample_client (MDict agent_reply)"
proof -
  have h: "str_in ''To approve, reply:'' (get_or (m_text prompt_record) '''')"
    by (simp add: prompt_record_def)
  have w: "wait_for_response sample_fromtimestamp sample_digits sample_client sample_request
        (timeout_script [MDict prompt_record])
       = Some (Inr (sample_request\<lparr>req_status := TIMEOUT\<rparr>))"
    by (simp add: sample_run prompt_record_def)
  have i: "bot_user_id identified_client = Some ''U0AGENT''"
    by (simp add: identified_client_def)
  have a: "m_user agent_reply = Some ''U0AGENT''"
    by (simp add: agent_reply_def)
  have k: "\<exists>b. bot_user_id identified_client = Some b \<and> b \<noteq> [] \<and> m_user agent_reply = Some b"
    using i a by simp
  have n: "\<not> is_bot_message sample_fromtimestamp sample_client (MDict agent_reply)"
    by (simp add: sample_run agent_reply_def)
  from h w i a n
    C2_self_originated_amended [of sample_client prompt_record sample_fromtimestamp]
    C2_self_originated_amended [of identified_client agent_reply sample_fromtimestamp] k
  show ?thesis by simp
qed

subsection \<open>Deduplication\<close>

text \<open>
  C6.  Take a poll cycle on a pending request that fetches a payload and does not
  return, and feed the identical payload to the next cycle.  The request is still PENDING
  after the first cycle, and the second cycle does not return either and leaves it PENDING:
  the two cycles make at most one transition of the status, and that one ends the loop.
  Every message of the payload that has an identifier (a non-empty \<^verbatim>\<open>ts\<close>) is in the
  seen set after the first cycle and is skipped from then on, without any change of the
  request or of the seen set; when all messages have one, the second cycle changes
  nothing at all.
\<close>

theorem C6_dedup:
  assumes pending: "req_status (ws_request st) = PENDING"
    and first: "poll_cycle ft dg self now st (Fetched payload) = Again sleeps st1"
  shows "req_status (ws_request st1) = PENDING
     \<and> (\<exists>sleeps2 st2. poll_cycle ft dg self now2 st1 (Fetched payload) = Again sleeps2 st2
           \<and> req_status (ws_request st2) = PENDING)
     \<and> (\<forall>m\<in>set payload. truthy (msg_ts_of m) \<longrightarrow>
           msg_ts_of m \<in> ws_seen st1
           \<and> (\<forall>request seen. ws_seen st1 \<subseteq> seen \<longrightarrow>
                 for_body ft self now2 request seen m = Continue request seen))
     \<and> ((\<forall>m\<in>set payload. truthy (msg_ts_of m)) \<longrightarrow>
           poll_cycle ft dg self now2 st1 (Fetched payload) = Again sleeps st1)"
proof -
  from first obtain r1 s1 where
    fm: "for_messages ft self now (ws_request st) (ws_seen st) payload = Continue r1 s1"
    and st1: "st1 = st\<lparr>ws_request := r1, ws_seen := s1\<rparr>"
    and sl: "sleeps = [ws_check_interval st]"
    by (auto simp: poll_cycle_def split: for_result.splits)
  from for_messages_status [OF fm] pending have p1: "req_status r1 = PENDING" by simp
  from for_messages_seen [OF fm]
  have marked: "\<forall>m\<in>set payload. truthy (msg_ts_of m) \<longrightarrow> msg_ts_of m \<in> s1" by simp
  have a: "req_status (ws_request st1) = PENDING" using st1 p1 by simp
  from for_messages_seen [OF fm] have id1: "req_id r1 = req_id (ws_request st)" by simp
  from for_messages_again [OF fm subset_refl id1 p1, of now2]
  obtain r2 s2 where
    fm2: "for_messages ft self now2 r1 s1 payload = Continue r2 s2"
    and p2: "req_status r2 = PENDING"
    by blast
  have b: "\<exists>sleeps2 st2. poll_cycle ft dg self now2 st1 (Fetched payload) = Again sleeps2 st2
           \<and> req_status (ws_request st2) = PENDING"
    using fm2 p2 st1 by (simp add: poll_cycle_def)
  have c: "\<forall>m\<in>set payload. truthy (msg_ts_of m) \<longrightarrow>
           msg_ts_of m \<in> ws_seen st1
           \<and> (\<forall>request seen. ws_seen st1 \<subseteq> seen \<longrightarrow>
                 for_body ft self now2 request seen m = Continue request seen)"
    using marked st1 by (auto simp: for_body_skip)
  have d: "(\<forall>m\<in>set payload. truthy (msg_ts_of m)) \<longrightarrow>
           poll_cycle ft dg self now2 st1 (Fetched payload) = Again sleeps st1"
  proof
    assume "\<forall>m\<in>set payload. truthy (msg_ts_of m)"
    with marked have "\<forall>m\<in>set payload. truthy (msg_ts_of m) \<and> msg_ts_of m \<in> s1" by auto
    from for_messages_skip_all [OF this, of ft self now2 r1]
    show "poll_cycle ft dg self now2 st1 (Fetched payload) = Again sleeps st1"
      using st1 sl by (simp add: poll_cycle_def)
  qed
  from a b c d show ?thesis by blast
qed

theorem C6_dedup_witness:
  "req_status (ws_request sample_state) = PENDING
   \<and> poll_cycle sample_fromtimestamp sample_digits sample_client 1700000061500000 sample_state
        (Fetched [MDict button_record])
      = Again [3] (sample_state\<lparr>ws_request :=
            sample_request\<lparr>responded_by := Some ''alice'',
              response_time := Some 1700000061500000\<rparr>,
          ws_seen := {''1700000060.000100''}\<rparr>)
   \<and> poll_cycle sample_fromtimestamp sample_digits sample_client 1700000064500000
        (sample_state\<lparr>ws_request :=
            sample_request\<lparr>responded_by := Some ''alice'',
              response_time := Some 1700000061500000\<rparr>,
          ws_seen := {''1700000060.000100''}\<rparr>)
        (Fetched [MDict button_record])
      = Again [3] (sample_state\<lparr>ws_request :=
            sample_request\<lparr>responded_by := Some ''alice'',
              response_time := Some 1700000061500000\<rparr>,
          ws_seen := {''1700000060.000100''}\<rparr>)"
proof -
  have p: "req_status (ws_request sample_state) = PENDING"
    by (simp add: sample_state_def sample_request_def new_request_def)
  have f: "poll_cycle sample_fromtimestamp sample_digits sample_client 1700000061500000 sample_state
        (Fetched [MDict button_record])
      = Again [3] (sample_state\<lparr>ws_request :=
            sample_request\<lparr>responded_by := Some ''alice'',
              response_time := Some 1700000061500000\<rparr>,
          ws_seen := {''1700000060.000100''}\<rparr>)"
    by (simp add: sample_run sample_state_def button_record_def)
  have t: "\<forall>m\<in>set [MDict button_record]. truthy (msg_ts_of m)"
    by (simp add: msg_ts_of_def button_record_def truthy_def)
  from p f t C6_dedup [OF p f, of 1700000064500000] show ?thesis by blast
qed

subsection \<open>Button responses\<close>

text \<open>
  C10.  Take a dictionary message whose \<^verbatim>\<open>value\<close> contains the request ID and whose
  text does not contain the request ID together with any of the words approve, deny and
  reject, and a pending request.  Then \<^verbatim>\<open>_is_approval_response\<close> returns true and
  \<^verbatim>\<open>_process_response\<close> leaves the status PENDING; from every state of the loop the
  body goes on to the next message with the request still PENDING and the identifier of
  the message, when it has one, in the seen set; and a wait that is fed nothing but this
  message, in any number of cycles, returns only with the status TIMEOUT, and no
  exception leaves it.
\<close>

theorem C10_button_only:
  assumes val: "m_value d = Some v" and inv: "str_in (req_id request) v"
    and nodec: "\<not> (str_in (lower (req_id request)) (lower (get_or (m_text d) ''''))
                 \<and> (str_in ''approve'' (lower (get_or (m_text d) ''''))
                    \<or> str_in ''deny'' (lower (get_or (m_text d) ''''))
                    \<or> str_in ''reject'' (lower (get_or (m_text d) ''''))))"
    and pending: "req_status request = PENDING"
  shows "is_approval_response (MDict d) (req_id request)
     \<and> req_status (process_response now (MDict d) request) = PENDING
     \<and> (\<exists>r' s'. for_body ft self now request seen (MDict d) = Continue r' s'
           \<and> req_status r' = PENDING \<and> req_id r' = req_id request
           \<and> (truthy (msg_ts_of (MDict d)) \<longrightarrow> msg_ts_of (MDict d) \<in> s'))
     \<and> ((\<forall>cy\<in>set script. \<exists>n. cy_fetch cy = Fetched (replicate n (MDict d)))
           \<and> ws_request st = request \<and> wait_loop ft dg self T st script = Some res
         \<longrightarrow> (\<exists>r. res = Inr r \<and> req_status r = TIMEOUT))"
proof -
  have a: "is_approval_response (MDict d) (req_id request)"
    using val inv by (simp add: is_approval_response_def Let_def)
  have undecided: "req_status (process_response t (MDict d) q) = req_status q"
    if "req_id q = req_id request" for t and q :: ApprovalRequest
    using nodec that by (intro process_response_undecided [where rid = "req_id request"]) auto
  have b: "req_status (process_response now (MDict d) request) = PENDING"
    using undecided [of request now] pending by simp
  have step: "\<exists>r' s'. for_body ft self t q sn (MDict d) = Continue r' s'
           \<and> req_status r' = PENDING \<and> req_id r' = req_id request
           \<and> (truthy (msg_ts_of (MDict d)) \<longrightarrow> msg_ts_of (MDict d) \<in> s')"
    if "req_id q = req_id request" "req_status q = PENDING"
    for t and q :: ApprovalRequest and sn
    using that undecided [of q t]
    by (auto simp: for_body_def Let_def mark_seen_def process_response_fixed)
  have c: "\<exists>r' s'. for_body ft self now request seen (MDict d) = Continue r' s'
           \<and> req_status r' = PENDING \<and> req_id r' = req_id request
           \<and> (truthy (msg_ts_of (MDict d)) \<longrightarrow> msg_ts_of (MDict d) \<in> s')"
    using step [of request now seen] pending by simp
  have d: "(\<forall>cy\<in>set script. \<exists>n. cy_fetch cy = Fetched (replicate n (MDict d)))
           \<and> ws_request st = request \<and> wait_loop ft dg self T st script = Some res
         \<longrightarrow> (\<exists>r. res = Inr r \<and> req_status r = TIMEOUT)"
  proof
    assume h: "(\<forall>cy\<in>set script. \<exists>n. cy_fetch cy = Fetched (replicate n (MDict d)))
           \<and> ws_request st = request \<and> wait_loop ft dg self T st script = Some res"
    have "\<exists>r0. (req_id r0 = req_id request \<and> req_status r0 = PENDING)
             \<and> res = Inr (r0\<lparr>req_status := TIMEOUT\<rparr>)"
    proof (rule wait_loop_invariant [where script = script and st = st and ft = ft
          and self = self and T = T and dg = dg])
      fix cy ms m sn and q :: ApprovalRequest
      assume "cy \<in> set script" "cy_fetch cy = Fetched ms" "m \<in> set ms"
        "req_id q = req_id request \<and> req_status q = PENDING"
      with h have "m = MDict d" by fastforce
      with step [of q "cy_response_clock cy" sn]
        \<open>req_id q = req_id request \<and> req_status q = PENDING\<close>
      show "\<exists>r' s'. for_body ft self (cy_response_clock cy) q sn m = Continue r' s'
              \<and> (req_id r' = req_id request \<and> req_status r' = PENDING)"
        by auto
    next
      fix cy
      assume "cy \<in> set script"
      with h show "\<exists>ms. cy_fetch cy = Fetched ms" by fastforce
    next
      show "req_id (ws_request st) = req_id request \<and> req_status (ws_request st) = PENDING"
        using h pending by simp
    next
      show "wait_loop ft dg self T st script = Some res" using h by simp
    qed
    then show "\<exists>r. res = Inr r \<and> req_status r = TIMEOUT" by auto
  qed
  from a b c d show ?thesis by blast
qed

theorem C10_button_only_witness:
  "m_value button_record = Some ''approve_ab12cd34''
   \<and> str_in (req_id sample_request) ''approve_ab12cd34''
   \<and> req_status sample_request = PENDING
   \<and> is_approval_response (MDict button_record) (req_id sample_request)
   \<and> req_status (process_response 1700000061500000 (MDict button_record) sample_request) = PENDING"
proof -
  have v: "m_value button_record = Some ''approve_ab12cd34''"
    by (simp add: button_record_def)
  have i: "str_in (req_id sample_request) ''approve_ab12cd34''"
    by (simp add: sample_request_def new_request_def)
  have t: "\<not> (str_in (lower (req_id sample_request)) (lower (get_or (m_text button_record) ''''))
                 \<and> (str_in ''approve'' (lower (get_or (m_text button_record) ''''))
                    \<or> str_in ''deny'' (lower (get_or (m_text button_record) ''''))
                    \<or> str_in ''reject'' (lower (get_or (m_text button_record) ''''))))"
    by (simp add: button_record_def lower_def)
  have p: "req_status sample_request = PENDING"
    by (simp add: sample_request_def new_request_def)
  from v i p C10_button_only [OF v i t p] show ?thesis by blast
qed

subsection \<open>Transport errors\<close>

text \<open>
  C9.  When the fetch of a poll cycle raises an \<^verbatim>\<open>Exception\<close> \<open>e\<close>: if the lowered
  message contains \<^verbatim>\<open>rate limit\<close> and the message has a retry-after hint, the digits
  \<open>ds\<close> with the unit \<open>u\<close>, of at most 4300 digits, the cycle sleeps once, for the
  minimum of the hint in seconds (times 60 for the unit \<^verbatim>\<open>m\<close>) and 5, and goes on with
  its state unchanged.  If the hint has more than 4300 digits, \<^verbatim>\<open>int\<close> raises
  \<^verbatim>\<open>ValueError\<close> inside the handler and the exception leaves
  \<^verbatim>\<open>_wait_for_response\<close>: here the transport error does abort the wait, before the
  deadline, and the caller sees an error.  For every other error the cycle goes on
  polling with the request and the seen set unchanged; and a wait all of whose fetches
  raise such errors returns exactly when the clock reaches the deadline, with the request
  it started from and the status TIMEOUT.  On a fetch that raises the message
  \<^verbatim>\<open>rate limit: retry after \<close> followed by 4301 digits and \<^verbatim>\<open>s\<close>, one minute
  after the request was posted and four minutes before the deadline,
  \<^verbatim>\<open>_wait_for_response\<close> raises the \<^verbatim>\<open>ValueError\<close> of \<^verbatim>\<open>int\<close>.
\<close>

theorem C9_transport_errors:
  assumes "is_Exception e"
  shows "(str_in ''rate limit'' (lower (str_of e))
          \<and> search_retry dg (chars_of (str_of e)) = Some (ds, u) \<and> length ds \<le> 4300
          \<longrightarrow> (\<exists>v. py_int dg ds = Inr v
                 \<and> poll_cycle ft dg self now st (Failed e)
                     = Again [min (if u = ''m'' then v * 60 else v) 5] st))
     \<and> (str_in ''rate limit'' (lower (str_of e))
          \<and> search_retry dg (chars_of (str_of e)) = Some (ds, u) \<and> 4300 < length ds
          \<longrightarrow> poll_cycle ft dg self now st (Failed e)
                = Raised (ValueError (int_limit_message (length ds)))
              \<and> wait_loop ft dg self T st
                   (\<lparr>cy_clock = t, cy_fetch = Failed e, cy_response_clock = now\<rparr> # script)
                 = (if t < T then Some (Inl (ValueError (int_limit_message (length ds))))
                    else Some (Inr ((ws_request st)\<lparr>req_status := TIMEOUT\<rparr>))))
     \<and> (\<not> (str_in ''rate limit'' (lower (str_of e))
             \<and> (\<exists>ds u. search_retry dg (chars_of (str_of e)) = Some (ds, u)
                         \<and> 4300 < length ds))
          \<longrightarrow> (\<exists>sleeps st'. poll_cycle ft dg self now st (Failed e) = Again sleeps st'
                 \<and> ws_request st' = ws_request st \<and> ws_seen st' = ws_seen st))
     \<and> ((\<forall>cy\<in>set script. \<exists>x. cy_fetch cy = Failed x \<and> is_Exception x
             \<and> \<not> (str_in ''rate limit'' (lower (str_of x))
                    \<and> (\<exists>ds u. search_retry dg (chars_of (str_of x)) = Some (ds, u)
                                \<and> 4300 < length ds)))
          \<longrightarrow> wait_loop ft dg self T st script =
                (if list_ex (\<lambda>cy. T \<le> cy_clock cy) script
                 then Some (Inr ((ws_request st)\<lparr>req_status := TIMEOUT\<rparr>)) else None))
     \<and> wait_for_response sample_fromtimestamp sample_digits sample_client sample_request
          (error_script overlong_hint)
        = Some (Inl (ValueError (int_limit_message 4301)))"
proof -
  have within: "\<exists>v. py_int dg ds = Inr v
                 \<and> poll_cycle ft dg self now st (Failed e)
                     = Again [min (if u = ''m'' then v * 60 else v) 5] st"
    if h: "str_in ''rate limit'' (lower (str_of e))
          \<and> search_retry dg (chars_of (str_of e)) = Some (ds, u) \<and> length ds \<le> 4300"
  proof -
    from h search_retry_Some [of dg "chars_of (str_of e)" ds u]
    have ok: "ds \<noteq> []" "list_all (is_digit dg) ds" by auto
    from h have "length ds \<le> 4300" by simp
    from py_int_within [OF ok this] obtain v where v: "py_int dg ds = Inr v" by blast
    with h assms show ?thesis by (simp add: poll_cycle_def Let_def)
  qed
  have a: "str_in ''rate limit'' (lower (str_of e))
          \<and> search_retry dg (chars_of (str_of e)) = Some (ds, u) \<and> length ds \<le> 4300
          \<longrightarrow> (\<exists>v. py_int dg ds = Inr v
                 \<and> poll_cycle ft dg self now st (Failed e)
                     = Again [min (if u = ''m'' then v * 60 else v) 5] st)"
    using within by blast
  have b: "str_in ''rate limit'' (lower (str_of e))
          \<and> search_retry dg (chars_of (str_of e)) = Some (ds, u) \<and> 4300 < length ds
          \<longrightarrow> poll_cycle ft dg self now st (Failed e)
                = Raised (ValueError (int_limit_message (length ds)))
              \<and> wait_loop ft dg self T st
                   (\<lparr>cy_clock = t, cy_fetch = Failed e, cy_response_clock = now\<rparr> # script)
                 = (if t < T then Some (Inl (ValueError (int_limit_message (length ds))))
                    else Some (Inr ((ws_request st)\<lparr>req_status := TIMEOUT\<rparr>)))"
    using poll_cycle_beyond [OF assms, of dg ds u ft self now st] by simp
  have c: "\<not> (str_in ''rate limit'' (lower (str_of e))
             \<and> (\<exists>ds u. search_retry dg (chars_of (str_of e)) = Some (ds, u)
                         \<and> 4300 < length ds))
          \<longrightarrow> (\<exists>sleeps st'. poll_cycle ft dg self now st (Failed e) = Again sleeps st'
                 \<and> ws_request st' = ws_request st \<and> ws_seen st' = ws_seen st)"
    using poll_cycle_Failed [OF assms, of dg ft self now st] by blast
  have d: "(\<forall>cy\<in>set script. \<exists>x. cy_fetch cy = Failed x \<and> is_Exception x
             \<and> \<not> (str_in ''rate limit'' (lower (str_of x))
                    \<and> (\<exists>ds u. search_retry dg (chars_of (str_of x)) = Some (ds, u)
                                \<and> 4300 < length ds)))
          \<longrightarrow> wait_loop ft dg self T st script =
                (if list_ex (\<lambda>cy. T \<le> cy_clock cy) script
                 then Some (Inr ((ws_request st)\<lparr>req_status := TIMEOUT\<rparr>)) else None)"
    using wait_loop_all_failed [of script dg ft self T st] by blast
  have ex: "is_Exception overlong_hint" by (simp add: overlong_hint_def)
  have rl: "str_in ''rate limit'' (lower (str_of overlong_hint))"
    by (simp add: overlong_hint_def lower_def lower_char_def)
  have len: "4300 < length (replicate 4301 ''9'')" by simp
  from poll_cycle_beyond [OF ex rl overlong_hint_search len]
  have f: "wait_for_response sample_fromtimestamp sample_digits sample_client sample_request
          (error_script overlong_hint)
        = Some (Inl (ValueError (int_limit_message 4301)))"
    by (simp add: wait_for_response_def error_script_def sample_request_def new_request_def
        sample_client_def SlackApprovalMCP_init_def minutes_def seconds_def)
  from a b c d f show ?thesis by blast
qed

theorem C9_transport_errors_witness:
  "is_Exception rate_limited
   \<and> str_in ''rate limit'' (lower (str_of rate_limited))
   \<and> search_retry sample_digits (chars_of (str_of rate_limited)) = Some ([''3'', ''0''], ''s'')
   \<and> poll_cycle sample_fromtimestamp sample_digits sample_client 1700000061500000 sample_state
        (Failed rate_limited) = Again [5] sample_state
   \<and> is_Exception rate_limited_arabic
   \<and> search_retry sample_digits (chars_of (str_of rate_limited_arabic))
       = Some ([[CHR 0xD9, CHR 0xA3]], ''s'')
   \<and> poll_cycle sample_fromtimestamp sample_digits sample_client 1700000061500000 sample_state
        (Failed rate_limited_arabic) = Again [3] sample_state
   \<and> is_Exception overlong_hint
   \<and> search_retry sample_digits (chars_of (str_of overlong_hint))
       = Some (replicate 4301 ''9'', ''s'')
   \<and> poll_cycle sample_fromtimestamp sample_digits sample_client 1700000061500000 sample_state
        (Failed overlong_hint) = Raised (ValueError (int_limit_message 4301))"
proof -
  have e1: "is_Exception rate_limited" by (simp add: rate_limited_def)
  have r1: "str_in ''rate limit'' (lower (str_of rate_limited))"
    by code_simp
  have s1: "search_retry sample_digits (chars_of (str_of rate_limited))
      = Some ([''3'', ''0''], ''s'')"
    by (simp add: rate_limited_def utf8_length_def match_retry_at_def literal_def
        is_digit_def decimal_digit_def)
  have v1: "py_int sample_digits [''3'', ''0''] = Inr 30"
    by (simp add: py_int_def is_digit_def decimal_digit_def)
  have e2: "is_Exception rate_limited_arabic" by (simp add: rate_limited_arabic_def)
  have r2: "str_in ''rate limit'' (lower (str_of rate_limited_arabic))"
    by (simp add: rate_limited_arabic_def lower_def lower_char_def)
  have s2: "search_retry sample_digits (chars_of (str_of rate_limited_arabic))
      = Some ([[CHR 0xD9, CHR 0xA3]], ''s'')"
    by (simp add: rate_limited_arabic_def utf8_length_def match_retry_at_def literal_def
        is_digit_def decimal_digit_def sample_digits_def)
  have v2: "py_int sample_digits [[CHR 0xD9, CHR 0xA3]] = Inr 3"
    by (simp add: py_int_def is_digit_def decimal_digit_def sample_digits_def)
  have e3: "is_Exception overlong_hint" by (simp add: overlong_hint_def)
  have r3: "str_in ''rate limit'' (lower (str_of overlong_hint))"
    by (simp add: overlong_hint_def lower_def lower_char_def)
  note s3 = overlong_hint_search [of sample_digits]
  from e1 r1 s1 v1 e2 r2 s2 v2 e3 r3 s3
    C9_transport_errors [OF e1, of sample_digits "[''3'', ''0'']" "''s''"
      sample_fromtimestamp sample_client 1700000061500000 sample_state]
    C9_transport_errors [OF e2, of sample_digits "[[CHR 0xD9, CHR 0xA3]]" "''s''"
      sample_fromtimestamp sample_client 1700000061500000 sample_state]
    C9_transport_errors [OF e3, of sample_digits "replicate 4301 ''9''" "''s''"
      sample_fromtimestamp sample_client 1700000061500000 sample_state]
  show ?thesis by simp
qed

subsection \<open>Facts about paths\<close>

lemma split_sep_no_slash: "x \<in> set (split_sep p) \<Longrightarrow> CHR ''/'' \<notin> set x"
proof (induction p arbitrary: x)
  case Nil
  then show ?case by simp
next
  case (Cons c cs)
  then show ?case
    by (cases "split_sep cs") (auto split: if_splits)
qed

lemma split_sep_plain: "CHR ''/'' \<notin> set x \<Longrightarrow> split_sep x = [x]"
  by (induction x) auto

lemma split_sep_append:
  "CHR ''/'' \<notin> set x \<Longrightarrow> split_sep (x @ CHR ''/'' # rest) = x # split_sep rest"
  by (induction x) auto

lemma split_sep_join:
  "\<forall>x\<in>set xs. CHR ''/'' \<notin> set x \<Longrightarrow> xs \<noteq> [] \<Longrightarrow> split_sep (join_sep xs) = xs"
proof (induction xs rule: join_sep.induct)
  case 1
  then show ?case by simp
next
  case (2 x)
  then show ?case by (simp add: split_sep_plain)
next
  case (3 x y ys)
  then show ?case by (simp add: split_sep_append)
qed

lemma path_components_join:
  assumes "\<forall>x\<in>set xs. CHR ''/'' \<notin> set x \<and> x \<noteq> [] \<and> x \<noteq> ''.''"
  shows "path_components (join_sep xs) = xs"
    and "path_components (''/'' @ join_sep xs) = xs"
proof -
  have keep: "filter (\<lambda>c. c \<noteq> [] \<and> c \<noteq> ''.'') xs = xs"
    using assms by (induction xs) auto
  show "path_components (join_sep xs) = xs"
  proof (cases "xs = []")
    case True
    then show ?thesis by (simp add: path_components_def)
  next
    case False
    with assms keep show ?thesis by (simp add: path_components_def split_sep_join)
  qed
  then show "path_components (''/'' @ join_sep xs) = xs"
    by (simp add: path_components_def)
qed

lemma common_prefix_prefix: "prefix (common_prefix xs ys) xs"
  by (induction xs ys rule: common_prefix.induct) auto

lemma common_prefix_prefix2: "prefix (common_prefix xs ys) ys"
  by (induction xs ys rule: common_prefix.induct) auto

lemma path_components_parts:
  "x \<in> set (path_components p) \<Longrightarrow> CHR ''/'' \<notin> set x \<and> x \<noteq> [] \<and> x \<noteq> ''.''"
  by (auto simp: path_components_def dest: split_sep_no_slash)

text \<open>
  What the check of \<^verbatim>\<open>_is_path_allowed\<close> decides, in terms of the components of the two
  paths: it raises when one path is absolute and the other is not, and otherwise it
  allows the path exactly when the longest common prefix of the component lists, joined
  again, spells the working directory.  When it allows a path, the components of the
  working directory are an initial segment of the components of the path.
\<close>

lemma commonpath_components:
  assumes "commonpath p q = Inr c"
  shows "path_components c = common_prefix (path_components p) (path_components q)"
proof -
  let ?common = "common_prefix (path_components p) (path_components q)"
  have parts: "\<forall>x\<in>set ?common. CHR ''/'' \<notin> set x \<and> x \<noteq> [] \<and> x \<noteq> ''.''"
    using common_prefix_prefix [of "path_components p" "path_components q"]
    by (auto dest!: set_mono_prefix path_components_parts)
  from assms have "c = (if prefix ''/'' p then ''/'' else '''') @ join_sep ?common"
    by (auto simp: commonpath_def Let_def split: if_splits)
  with path_components_join [OF parts] show ?thesis by (auto split: if_splits)
qed

lemma is_path_allowed_inside:
  assumes "is_path_allowed agent p = Inr True"
  shows "prefix (path_components (working_directory agent)) (path_components p)"
proof -
  from assms have "commonpath p (working_directory agent) = Inr (working_directory agent)"
    by (auto simp: is_path_allowed_def split: sum.splits)
  from commonpath_components [OF this]
  have eq: "path_components (working_directory agent)
      = common_prefix (path_components p) (path_components (working_directory agent))" .
  show ?thesis
    by (subst eq) (rule common_prefix_prefix)
qed

lemma is_path_allowed_error:
  "is_path_allowed agent p = Inl e \<Longrightarrow> e = ValueError ''Can't mix absolute and relative paths''"
  by (auto simp: is_path_allowed_def commonpath_def Let_def split: if_splits sum.splits)

lemma is_path_allowed_outside:
  assumes "\<not> prefix (path_components (working_directory agent)) (path_components p)"
  shows "is_path_allowed agent p =
           (if prefix ''/'' p = prefix ''/'' (working_directory agent) then Inr False
            else Inl (ValueError ''Can't mix absolute and relative paths''))"
proof (cases "is_path_allowed agent p")
  case (Inl e)
  then show ?thesis
    by (auto simp: is_path_allowed_def commonpath_def Let_def split: if_splits sum.splits)
next
  case (Inr b)
  with assms is_path_allowed_inside [of agent p] have "b = False" by auto
  with Inr show ?thesis
    by (auto simp: is_path_allowed_def commonpath_def Let_def split: if_splits sum.splits)
qed

subsection \<open>Facts about execution\<close>

lemma execute_operation_refused:
  assumes "\<not> prefix (path_components (working_directory agent))
               (path_components (get_full_path w agent (op_path operation)))"
  shows "execute_operation w agent operation =
           (Inl (ValueError
                   (if prefix ''/'' (get_full_path w agent (op_path operation))
                       = prefix ''/'' (working_directory agent)
                    then ''Operation not allowed outside working directory: ''
                         @ get_full_path w agent (op_path operation)
                    else ''Can't mix absolute and relative paths'')), [])"
  using is_path_allowed_outside [OF assms]
  by (simp add: execute_operation_def Let_def)

lemma execute_with_fallback_result:
  "fst (execute_with_fallback w agent operation) = fst (execute_operation w agent operation)"
  by (cases "execute_operation w agent operation")
     (auto simp: execute_with_fallback_def agent_move_file_def Let_def split: sum.splits)

lemma execute_with_fallback_refused:
  assumes "\<not> prefix (path_components (working_directory agent))
               (path_components (get_full_path w agent (op_path operation)))"
  shows "\<exists>msg trace. execute_with_fallback w agent operation = (Inl (ValueError msg), trace)
           \<and> list_all (\<lambda>ev. \<not> is_execution_event ev) trace
           \<and> list_all (\<lambda>ev. \<not> is_approval_event ev) trace"
  using execute_operation_refused [OF assms]
  by (simp add: execute_with_fallback_def agent_move_file_def Let_def)

text \<open>
  An exception that leaves \<^verbatim>\<open>_execute_with_fallback\<close> and is not an \<^verbatim>\<open>Exception\<close> was
  raised by the code generator or by \<^verbatim>\<open>exec\<close>.
\<close>

lemma execute_with_fallback_escape:
  assumes "fst (execute_with_fallback w agent operation) = Inl e" "\<not> is_Exception e"
  shows "(\<exists>prompt. w_generate w prompt = Inl e) \<or> (\<exists>code. w_exec w code = Inl e)"
proof -
  from assms(1) have "fst (execute_operation w agent operation) = Inl e"
    by (simp add: execute_with_fallback_result)
  with assms(2) show ?thesis
    by (auto simp: execute_operation_def execute_code_snippet_def Let_def
        dest: is_path_allowed_error split: sum.splits bool.splits if_splits)
qed

subsection \<open>The orchestrator\<close>

text \<open>
  C1, as stated, fails on the path it names first, and for exceptions that are not of
  the class \<^verbatim>\<open>Exception\<close>.  When \<^verbatim>\<open>parse_intent\<close> raises, \<^verbatim>\<open>log_entry\<close> is still
  \<^verbatim>\<open>None\<close>, the handler skips the append under \<^verbatim>\<open>if log_entry:\<close>, and the audit log
  stays as it was.  When the generated code of an approved Delete raises
  \<^verbatim>\<open>SystemExit\<close>, no handler of \<^verbatim>\<open>process_request\<close> catches it: the exception leaves
  \<^verbatim>\<open>process_request\<close>, no dictionary is returned and no entry is appended.
\<close>

theorem C1_counterexample:
  "process_request unparsed_world sample_agent ''Delete the old-backup.zip file'' []
     = (Inr \<lparr>r_success = False, r_result = None,
             r_error = Some ''Expecting value: line 1 column 1 (char 0)'',
             r_required_approval = False, r_approval_status = None\<rparr>,
        [], [ParseIntent ''Delete the old-backup.zip file''])
   \<and> fst (process_request exiting_world sample_agent ''Delete the old-backup.zip file'' [])
       = Inl (SystemExit ''1'')
   \<and> fst (snd (process_request exiting_world sample_agent
                 ''Delete the old-backup.zip file'' [])) = []"
  by (simp add: process_request_def approval_branch_def execute_with_fallback_def
      execute_operation_def execute_code_snippet_def is_path_allowed_def get_full_path_def
      commonpath_def path_components_def abspath_def os_path_join_def normpath_def
      sample_agent_def FileManagementAgent_init_def unparsed_world_def exiting_world_def
      sample_world_def sample_operation_def is_high_risk_operation_def approved_request_def
      Let_def)

text \<open>
  C1, amended.  For every user request and every behaviour of the intent parser, the
  approval coordinator and the executor, \<^verbatim>\<open>process_request\<close> either returns one result
  dictionary, in which \<^verbatim>\<open>success\<close> is true exactly when there is no \<^verbatim>\<open>error\<close>, or is
  left by an exception that is not an \<^verbatim>\<open>Exception\<close> (such as \<^verbatim>\<open>SystemExit\<close>,
  \<^verbatim>\<open>KeyboardInterrupt\<close> or \<^verbatim>\<open>CancelledError\<close>) and that the parser, the coordinator,
  the code generator or \<^verbatim>\<open>exec\<close> raised; every \<^verbatim>\<open>Exception\<close> is caught and turned
  into a dictionary.  When it returns, it has appended exactly one entry to the audit log
  if the intent was parsed, on every later path (approval raised, denied, timed out,
  execution failed or succeeded), and no entry if parsing failed.  When an exception
  leaves it, the audit log is unchanged.
\<close>

theorem C1_result_and_audit_amended:
  "case process_request w agent user_input audit_log of
     (Inr result, audit_log', trace) \<Rightarrow>
       (\<exists>entries. audit_log' = audit_log @ entries
           \<and> length entries
               = (case w_parse_intent w user_input of Inl e \<Rightarrow> 0 | Inr operation \<Rightarrow> 1))
       \<and> r_success result = (r_error result = None)
   | (Inl e, audit_log', trace) \<Rightarrow>
       \<not> is_Exception e \<and> audit_log' = audit_log
       \<and> (w_parse_intent w user_input = Inl e
          \<or> (\<exists>operation context. w_request_approval w operation context = Inl e)
          \<or> (\<exists>prompt. w_generate w prompt = Inl e)
          \<or> (\<exists>code. w_exec w code = Inl e))"
proof (cases "w_parse_intent w user_input")
  case (Inl e)
  then show ?thesis by (simp add: process_request_def)
next
  case parsed: (Inr operation)
  obtain x tr where fb: "execute_with_fallback w agent operation = (x, tr)"
    by (cases "execute_with_fallback w agent operation")
  have esc: "(\<exists>prompt. w_generate w prompt = Inl e) \<or> (\<exists>code. w_exec w code = Inl e)"
    if "x = Inl e" "\<not> is_Exception e" for e
    using execute_with_fallback_escape [of w agent operation e] fb that by simp
  show ?thesis
  proof (cases "is_high_risk_operation agent operation")
    case False
    show ?thesis
    proof (cases x)
      case (Inl e)
      with parsed False fb esc [of e] show ?thesis
        by (cases "is_Exception e") (simp_all add: process_request_def Let_def)
    next
      case (Inr v)
      with parsed False fb show ?thesis by (simp add: process_request_def Let_def)
    qed
  next
    case True
    show ?thesis
    proof (cases "w_request_approval w operation (create_approval_context operation user_input)")
      case (Inl approval_error)
      with parsed True show ?thesis
        by (cases "is_Exception approval_error")
           (auto simp: process_request_def approval_branch_def Let_def)
    next
      case approved: (Inr approval)
      show ?thesis
      proof (cases x)
        case (Inl e)
        with parsed True approved fb esc [of e] show ?thesis
          by (cases "is_Exception e")
             (simp_all add: process_request_def approval_branch_def Let_def)
      next
        case (Inr v)
        with parsed True approved fb show ?thesis
          by (simp add: process_request_def approval_branch_def Let_def)
      qed
    qed
  qed
qed

text \<open>
  C5, as stated, fails for a high-risk operation: the path is checked only in
  \<^verbatim>\<open>execute_operation\<close>, which \<^verbatim>\<open>process_request\<close> reaches after the approval
  coordinator has returned APPROVED.  For a Delete of \<^verbatim>\<open>../secrets.txt\<close>, which
  resolves to \<^verbatim>\<open>/home/user/secrets.txt\<close>, outside the working directory
  \<^verbatim>\<open>/home/user/agent-workspace\<close>, the approval coordinator is invoked.
\<close>

theorem C5_counterexample:
  "get_full_path (sample_world outside_operation) sample_agent (op_path outside_operation)
     = ''/home/user/secrets.txt''
   \<and> working_directory sample_agent = ''/home/user/agent-workspace''
   \<and> is_path_allowed sample_agent ''/home/user/secrets.txt'' = Inr False
   \<and> snd (snd (process_request (sample_world outside_operation) sample_agent
                 ''Delete ../secrets.txt'' []))
     = [ParseIntent ''Delete ../secrets.txt'',
        RequestApproval outside_operation
          (create_approval_context outside_operation ''Delete ../secrets.txt''),
        MoveFileLookup ''../secrets.txt'' ''trash/2023-11-14T22:13:20_../secrets.txt'']"
  by (simp add: process_request_def approval_branch_def execute_with_fallback_def
      execute_operation_def agent_move_file_def is_path_allowed_def get_full_path_def
      commonpath_def path_components_def abspath_def os_path_join_def normpath_def
      sample_agent_def FileManagementAgent_init_def sample_world_def outside_operation_def
      is_high_risk_operation_def approved_request_def Let_def)

text \<open>
  C5, amended.  Take an operation whose target path resolves outside the working
  directory: the components of the working directory are not an initial segment of the
  components of the full path, which is the target joined to the working directory and
  normalised (\<^verbatim>\<open>.\<close> and \<^verbatim>\<open>..\<close> are resolved in the text of the path; symbolic links
  are not followed).  Then \<^verbatim>\<open>execute_operation\<close> raises \<^verbatim>\<open>ValueError\<close> before it calls
  the code generator or executes anything; \<^verbatim>\<open>process_request\<close> returns no success and
  neither generates nor executes code for the operation; and the approval coordinator is
  invoked for it exactly when the operation is high-risk (the refusal then comes after
  the approval, if the request is approved).
\<close>

theorem C5_path_violation_amended:
  assumes parsed: "w_parse_intent w user_input = Inr operation"
    and outside: "\<not> prefix (path_components (working_directory agent))
                    (path_components (get_full_path w agent (op_path operation)))"
  shows "execute_operation w agent operation =
           (Inl (ValueError
                   (if prefix ''/'' (get_full_path w agent (op_path operation))
                       = prefix ''/'' (working_directory agent)
                    then ''Operation not allowed outside working directory: ''
                         @ get_full_path w agent (op_path operation)
                    else ''Can't mix absolute and relative paths'')), [])
     \<and> (case fst (process_request w agent user_input audit_log) of
           Inr result \<Rightarrow> \<not> r_success result
         | Inl e \<Rightarrow> \<not> is_Exception e)
     \<and> list_all (\<lambda>ev. \<not> is_execution_event ev)
          (snd (snd (process_request w agent user_input audit_log)))
     \<and> list_ex is_approval_event (snd (snd (process_request w agent user_input audit_log)))
         = is_high_risk_operation agent operation"
proof -
  from execute_with_fallback_refused [OF outside]
  obtain msg trace where
    fb: "execute_with_fallback w agent operation = (Inl (ValueError msg), trace)"
    and ne: "list_all (\<lambda>ev. \<not> is_execution_event ev) trace"
    and na: "list_all (\<lambda>ev. \<not> is_approval_event ev) trace"
    by blast
  from na have na': "\<not> list_ex is_approval_event trace"
    by (simp add: list_all_iff list_ex_iff)
  note refused = execute_operation_refused [OF outside]
  have rest: "(case fst (process_request w agent user_input audit_log) of
           Inr result \<Rightarrow> \<not> r_success result
         | Inl e \<Rightarrow> \<not> is_Exception e)
     \<and> list_all (\<lambda>ev. \<not> is_execution_event ev)
          (snd (snd (process_request w agent user_input audit_log)))
     \<and> list_ex is_approval_event (snd (snd (process_request w agent user_input audit_log)))
         = is_high_risk_operation agent operation"
  proof (cases "is_high_risk_operation agent operation")
    case False
    with parsed fb ne na' show ?thesis
      by (simp add: process_request_def Let_def)
  next
    case True
    show ?thesis
    proof (cases "w_request_approval w operation (create_approval_context operation user_input)")
      case (Inl approval_error)
      with parsed True show ?thesis
        by (cases "is_Exception approval_error")
           (simp_all add: process_request_def approval_branch_def Let_def)
    next
      case (Inr approval)
      with parsed True fb ne na' show ?thesis
        by (simp add: process_request_def approval_branch_def Let_def)
    qed
  qed
  from refused rest show ?thesis by blast
qed

theorem C5_path_violation_amended_witness:
  "w_parse_intent (sample_world outside_operation) ''Delete ../secrets.txt'' = Inr outside_operation
   \<and> \<not> prefix (path_components (working_directory sample_agent))
          (path_components (get_full_path (sample_world outside_operation) sample_agent
                              (op_path outside_operation)))
   \<and> execute_operation (sample_world outside_operation) sample_agent outside_operation
       = (Inl (ValueError
                 ''Operation not allowed outside working directory: /home/user/secrets.txt''),
          [])
   \<and> list_ex is_approval_event
        (snd (snd (process_request (sample_world outside_operation) sample_agent
                    ''Delete ../secrets.txt'' [])))
   \<and> is_path_allowed sample_agent
        (get_full_path (sample_world sample_operation) sample_agent (op_path sample_operation))
       = Inr True"
proof -
  have p: "w_parse_intent (sample_world outside_operation) ''Delete ../secrets.txt''
      = Inr outside_operation"
    by (simp add: sample_world_def)
  have f: "get_full_path (sample_world outside_operation) sample_agent
        (op_path outside_operation) = ''/home/user/secrets.txt''"
    by (simp add: get_full_path_def abspath_def os_path_join_def normpath_def
        sample_agent_def FileManagementAgent_init_def sample_world_def outside_operation_def
        Let_def)
  have d: "working_directory sample_agent = ''/home/user/agent-workspace''"
    by (simp add: abspath_def os_path_join_def normpath_def sample_agent_def
        FileManagementAgent_init_def Let_def)
  have o: "\<not> prefix (path_components (working_directory sample_agent))
          (path_components (get_full_path (sample_world outside_operation) sample_agent
                              (op_path outside_operation)))"
    by (simp add: f d path_components_def)
  have h: "is_high_risk_operation sample_agent outside_operation"
    by (simp add: is_high_risk_operation_def sample_agent_def FileManagementAgent_init_def
        outside_operation_def)
  have a: "is_path_allowed sample_agent
        (get_full_path (sample_world sample_operation) sample_agent (op_path sample_operation))
       = Inr True"
    by (simp add: is_path_allowed_def commonpath_def path_components_def get_full_path_def
        abspath_def os_path_join_def normpath_def sample_agent_def
        FileManagementAgent_init_def sample_world_def sample_operation_def Let_def)
  from p o h a f d C5_path_violation_amended [OF p o, of "[]"] show ?thesis by simp
qed

text \<open>
  C7.  The fallback never takes effect: \<^verbatim>\<open>_execute_with_fallback\<close> returns or raises
  exactly what \<^verbatim>\<open>execute_operation\<close> does, for every operation.  For a Delete whose
  primary execution fails the code does reach the call of \<^verbatim>\<open>self.agent._move_file\<close>,
  once, but the agent has no such method: the lookup raises, the bare \<^verbatim>\<open>except\<close>
  re-raises the original error, nothing is moved and the success result that names the
  quarantine path is never returned.
\<close>

theorem C7_fallback_never_succeeds:
  "fst (execute_with_fallback w agent operation) = fst (execute_operation w agent operation)
   \<and> execute_with_fallback (sample_world sample_operation) sample_agent sample_operation
       = (Inl (Exception (''Failed to execute AI-generated code: [Errno 13] Permission denied''
                           @ newline @ ''Code: os.remove(path)'')),
          [GenerateCode (create_operation_prompt sample_operation
                           ''/home/user/agent-workspace/old-backup.zip''),
           ExecuteCode ''os.remove(path)'',
           MoveFileLookup ''old-backup.zip'' ''trash/2023-11-14T22:13:20_old-backup.zip''])"
proof
  show "fst (execute_with_fallback w agent operation) = fst (execute_operation w agent operation)"
    by (rule execute_with_fallback_result)
next
  show "execute_with_fallback (sample_world sample_operation) sample_agent sample_operation
       = (Inl (Exception (''Failed to execute AI-generated code: [Errno 13] Permission denied''
                           @ newline @ ''Code: os.remove(path)'')),
          [GenerateCode (create_operation_prompt sample_operation
                           ''/home/user/agent-workspace/old-backup.zip''),
           ExecuteCode ''os.remove(path)'',
           MoveFileLookup ''old-backup.zip'' ''trash/2023-11-14T22:13:20_old-backup.zip''])"
    by (simp add: execute_with_fallback_def execute_operation_def execute_code_snippet_def
        agent_move_file_def is_path_allowed_def get_full_path_def commonpath_def
        path_components_def abspath_def
        os_path_join_def normpath_def sample_agent_def FileManagementAgent_init_def
        sample_world_def sample_operation_def Let_def)
qed

end
